theory Spec2Isabelle
  imports Main "HOL-Library.Word" "HOL-Library.Monad_Syntax"
begin

section \<open>Data model of the merge playground (package mergeobjects)\<close>

text \<open>
  Go's \<open>int\<close> and \<open>int64\<close> are 64-bit words, \<open>int32\<close> a 32-bit word. A
  \<open>float64\<close> is carried as its IEEE-754 bit pattern: the merge only moves it.
  A pointer field is an \<open>option\<close> of its pointee (\<open>None\<close> is nil), a slice is
  an \<open>option\<close> of a list (\<open>None\<close> is the nil slice, \<open>Some []\<close> the empty
  non-nil one), a map is an \<open>option\<close> of a partial function.
\<close>

type_synonym go_int = "64 word"
type_synonym go_int32 = "32 word"
type_synonym go_int64 = "64 word"
type_synonym go_float64 = "64 word"

datatype Time = Time (unix_sec: int) (nsec: nat)

text \<open>Dynamic values stored under \<open>map[string]any\<close>.\<close>

datatype any =
    ANil
  | ABool bool
  | AString string
  | AInt go_int
  | AFloat64 go_float64
  | ASliceAny "any list"
  | AMapAny "(string \<times> any) list"
  | ASliceString "string list"
  | ASliceInt "go_int list"
  | AMapString "(string \<times> string) list"

record DatabaseConfig =
  d_Host :: string
  d_Port :: go_int
  d_Username :: string
  d_Password :: string
  d_SSLMode :: string

record Tag =
  t_Key :: string
  t_Value :: string

record Config =
  Name :: string
  Port :: go_int
  MaxRetries :: go_int32
  Timeout :: go_int64
  Rate :: go_float64
  Enabled :: bool
  EnabledPtr :: "bool option"
  Description :: "string option"
  Hosts :: "string list option"
  Ports :: "go_int list option"
  Tags :: "Tag list option"
  Labels :: "(string \<rightharpoonup> string) option"
  Metadata :: "(string \<rightharpoonup> any) option"
  Database :: DatabaseConfig
  DatabasePtr :: "DatabaseConfig option"
  CreatedAt :: Time
  UpdatedAt :: "Time option"

record InputDatabaseConfig =
  id_Host :: "string option"
  id_Port :: "go_int option"
  id_Username :: "string option"
  id_Password :: "string option"
  id_SSLMode :: "string option"

record InputTag =
  it_Key :: "string option"
  it_Value :: "string option"

record InputConfig =
  i_Name :: "string option"
  i_Port :: "go_int option"
  i_MaxRetries :: "go_int32 option"
  i_Timeout :: "go_int64 option"
  i_Rate :: "go_float64 option"
  i_Enabled :: "bool option"
  i_EnabledPtr :: "bool option"
  i_Description :: "string option"
  i_Hosts :: "string list option"
  i_Ports :: "go_int list option"
  i_Tags :: "InputTag list option"
  i_Labels :: "(string \<rightharpoonup> string) option"
  i_Metadata :: "(string \<rightharpoonup> any) option"
  i_Database :: "InputDatabaseConfig option"
  i_DatabasePtr :: "InputDatabaseConfig option"
  i_CreatedAt :: "Time option"
  i_UpdatedAt :: "Time option"

text \<open>Zero values: \<open>DatabaseConfig{}\<close>, \<open>Tag{}\<close>, \<open>Config{}\<close>.\<close>

definition DatabaseConfig0 :: DatabaseConfig where
  "DatabaseConfig0 =
     \<lparr>d_Host = [], d_Port = 0, d_Username = [], d_Password = [], d_SSLMode = []\<rparr>"

definition Tag0 :: Tag where
  "Tag0 = \<lparr>t_Key = [], t_Value = []\<rparr>"

definition Config0 :: Config where
  "Config0 =
     \<lparr>Name = [], Port = 0, MaxRetries = 0, Timeout = 0, Rate = 0, Enabled = False,
      EnabledPtr = None, Description = None, Hosts = None, Ports = None, Tags = None,
      Labels = None, Metadata = None, Database = DatabaseConfig0, DatabasePtr = None,
      CreatedAt = Time 0 0, UpdatedAt = None\<rparr>"

text \<open>The all-unset overlays \<open>InputDatabaseConfig{}\<close> and \<open>InputConfig{}\<close>.\<close>

definition InputDatabaseConfig0 :: InputDatabaseConfig where
  "InputDatabaseConfig0 =
     \<lparr>id_Host = None, id_Port = None, id_Username = None, id_Password = None,
      id_SSLMode = None\<rparr>"

definition InputConfig0 :: InputConfig where
  "InputConfig0 =
     \<lparr>i_Name = None, i_Port = None, i_MaxRetries = None, i_Timeout = None, i_Rate = None,
      i_Enabled = None, i_EnabledPtr = None, i_Description = None, i_Hosts = None,
      i_Ports = None, i_Tags = None, i_Labels = None, i_Metadata = None,
      i_Database = None, i_DatabasePtr = None, i_CreatedAt = None, i_UpdatedAt = None\<rparr>"

section \<open>The field-by-field merge (merge\_reflection.go)\<close>

text \<open>\<open>if p != nil { dst.f = *p }\<close>: one guarded assignment.\<close>

definition assign_if_set :: "'a option \<Rightarrow> ('a \<Rightarrow> 'r \<Rightarrow> 'r) \<Rightarrow> 'r \<Rightarrow> 'r" where
  "assign_if_set p upd dst = (case p of None \<Rightarrow> dst | Some v \<Rightarrow> upd v dst)"

definition mergeInputDatabaseToDatabase ::
    "DatabaseConfig \<Rightarrow> InputDatabaseConfig \<Rightarrow> DatabaseConfig" where
  "mergeInputDatabaseToDatabase dst src =
     (let dst = assign_if_set (id_Host src) (\<lambda>v d. d\<lparr>d_Host := v\<rparr>) dst;
          dst = assign_if_set (id_Port src) (\<lambda>v d. d\<lparr>d_Port := v\<rparr>) dst;
          dst = assign_if_set (id_Username src) (\<lambda>v d. d\<lparr>d_Username := v\<rparr>) dst;
          dst = assign_if_set (id_Password src) (\<lambda>v d. d\<lparr>d_Password := v\<rparr>) dst;
          dst = assign_if_set (id_SSLMode src) (\<lambda>v d. d\<lparr>d_SSLMode := v\<rparr>) dst
      in dst)"

text \<open>The loop body over \<open>src.Tags\<close>: an \<open>InputTag\<close> becomes a \<open>Tag\<close>.\<close>

definition convertTag :: "InputTag \<Rightarrow> Tag" where
  "convertTag t =
     (let tag = Tag0;
          tag = assign_if_set (it_Key t) (\<lambda>v g. g\<lparr>t_Key := v\<rparr>) tag;
          tag = assign_if_set (it_Value t) (\<lambda>v g. g\<lparr>t_Value := v\<rparr>) tag
      in tag)"

text \<open>
  \<open>for k, v := range src { dst[k] = v }\<close> on a destination that is made when nil:
  every key of the source is stored, every other key of the destination stays.
\<close>

definition mergeMap :: "('k \<rightharpoonup> 'v) option \<Rightarrow> ('k \<rightharpoonup> 'v) \<Rightarrow> ('k \<rightharpoonup> 'v) option" where
  "mergeMap dst src =
     Some ((case dst of None \<Rightarrow> Map.empty | Some m \<Rightarrow> m) ++ src)"

definition mergeInputToConfig :: "Config \<Rightarrow> InputConfig option \<Rightarrow> Config" where
  "mergeInputToConfig dst0 srcp =
     (case srcp of
        None \<Rightarrow> dst0
      | Some src \<Rightarrow>
         (let dst = assign_if_set (i_Name src) (\<lambda>v c. c\<lparr>Name := v\<rparr>) dst0;
              dst = assign_if_set (i_Port src) (\<lambda>v c. c\<lparr>Port := v\<rparr>) dst;
              dst = assign_if_set (i_MaxRetries src) (\<lambda>v c. c\<lparr>MaxRetries := v\<rparr>) dst;
              dst = assign_if_set (i_Timeout src) (\<lambda>v c. c\<lparr>Timeout := v\<rparr>) dst;
              dst = assign_if_set (i_Rate src) (\<lambda>v c. c\<lparr>Rate := v\<rparr>) dst;
              dst = assign_if_set (i_Enabled src) (\<lambda>v c. c\<lparr>Enabled := v\<rparr>) dst;
              dst = assign_if_set (i_EnabledPtr src) (\<lambda>v c. c\<lparr>EnabledPtr := Some v\<rparr>) dst;
              dst = assign_if_set (i_Description src) (\<lambda>v c. c\<lparr>Description := Some v\<rparr>) dst;
              dst = assign_if_set (i_Hosts src) (\<lambda>v c. c\<lparr>Hosts := Some v\<rparr>) dst;
              dst = assign_if_set (i_Ports src) (\<lambda>v c. c\<lparr>Ports := Some v\<rparr>) dst;
              dst = assign_if_set (i_Tags src)
                      (\<lambda>v c. c\<lparr>Tags := Some (map convertTag v)\<rparr>) dst;
              dst = assign_if_set (i_Labels src)
                      (\<lambda>v c. c\<lparr>Labels := mergeMap (Labels c) v\<rparr>) dst;
              dst = assign_if_set (i_Metadata src)
                      (\<lambda>v c. c\<lparr>Metadata := mergeMap (Metadata c) v\<rparr>) dst;
              dst = assign_if_set (i_Database src)
                      (\<lambda>v c. c\<lparr>Database := mergeInputDatabaseToDatabase (Database c) v\<rparr>) dst;
              dst = assign_if_set (i_DatabasePtr src)
                      (\<lambda>v c. c\<lparr>DatabasePtr :=
                         Some (mergeInputDatabaseToDatabase
                                 (case DatabasePtr c of None \<Rightarrow> DatabaseConfig0 | Some d \<Rightarrow> d) v)\<rparr>)
                      dst;
              dst = assign_if_set (i_CreatedAt src) (\<lambda>v c. c\<lparr>CreatedAt := v\<rparr>) dst;
              dst = assign_if_set (i_UpdatedAt src) (\<lambda>v c. c\<lparr>UpdatedAt := Some v\<rparr>) dst
          in dst))"

definition MergeReflection :: "InputConfig option \<Rightarrow> InputConfig option \<Rightarrow> Config" where
  "MergeReflection input1 input2 =
     (let result = Config0;
          result = (if input1 \<noteq> None then mergeInputToConfig result input1 else result);
          result = (if input2 \<noteq> None then mergeInputToConfig result input2 else result)
      in result)"

text \<open>
  The effective value as the specification words it: starting from the base, each layer's
  overlay in ascending precedence order is merged onto the accumulator. A layer with no
  contribution is the nil overlay, which the merge skips.
\<close>

definition spec_effective :: "Config \<Rightarrow> InputConfig option list \<Rightarrow> Config" where
  "spec_effective base overlays = foldl mergeInputToConfig base overlays"

subsection \<open>Inputs of merge\_test.go and of the specification's scenario\<close>

definition test_input1 :: InputConfig where
  "test_input1 = InputConfig0
     \<lparr>i_Name := Some ''service-a'', i_Port := Some 8080, i_MaxRetries := Some 3,
      i_Enabled := Some True,
      i_Hosts := Some [''host1.example.com'', ''host2.example.com''],
      i_Labels := Some [''env'' \<mapsto> ''production'', ''version'' \<mapsto> ''1.0''],
      i_Database := Some (InputDatabaseConfig0
         \<lparr>id_Host := Some ''db1.example.com'', id_Port := Some 5432,
          id_Username := Some ''admin''\<rparr>),
      i_CreatedAt := Some (Time 1704067200 0)\<rparr>"

definition test_input2 :: InputConfig where
  "test_input2 = InputConfig0
     \<lparr>i_Port := Some 9090, i_Rate := Some 0x3FF8000000000000,
      i_Description := Some ''Updated service description'',
      i_Labels := Some [''version'' \<mapsto> ''2.0'', ''team'' \<mapsto> ''platform''],
      i_Database := Some (InputDatabaseConfig0
         \<lparr>id_Password := Some ''secret123'', id_SSLMode := Some ''require''\<rparr>),
      i_Tags := Some [\<lparr>it_Key = Some ''priority'', it_Value = Some ''high''\<rparr>]\<rparr>"

definition witness_acc :: Config where
  "witness_acc = Config0
     \<lparr>Name := ''service-a'', Port := 8080,
      Labels := Some [''env'' \<mapsto> ''production'', ''version'' \<mapsto> ''1.0''],
      Database := DatabaseConfig0\<lparr>d_Host := ''db1.example.com'', d_Port := 5432\<rparr>,
      DatabasePtr := Some (DatabaseConfig0\<lparr>d_Host := ''replica.example.com''\<rparr>)\<rparr>"

definition witness_overlay :: InputConfig where
  "witness_overlay = test_input2
     \<lparr>i_DatabasePtr := Some (InputDatabaseConfig0\<lparr>id_Port := Some 5433\<rparr>)\<rparr>"

definition scenario_base :: Config where
  "scenario_base = Config0\<lparr>Name := ''default'', Port := 8080\<rparr>"

definition scenario_file :: InputConfig where
  "scenario_file = InputConfig0\<lparr>i_Port := Some 9090\<rparr>"

definition scenario_env :: InputConfig where
  "scenario_env = InputConfig0\<lparr>i_Name := Some ''from-env''\<rparr>"

section \<open>The layered broker, from the specification\<close>

text \<open>
  Modelled from the spec: the generated broker (the template that
  \<open>generateLayerBrokerFile\<close> instantiates) is not part of the sources, so the broker's
  state and its mutating operations follow sections 4.1 to 4.4 and 7 of the
  specification. The three injected operations and the path table are parameters.
\<close>

datatype broker_error = UnknownLayer string | UnknownPath string | TransactionAborted string

record ('v, 'o, 's) broker_ops =
  op_merge :: "'v \<Rightarrow> 'o \<Rightarrow> 'v"
  op_equal :: "'s \<Rightarrow> 's \<Rightarrow> bool"
  op_paths :: "(string \<times> ('v \<Rightarrow> 's)) list"
  op_queue_depth :: nat

record 's subscription =
  sub_path :: string
  sub_live :: bool
  sub_queue :: "'s list"
  sub_missed :: bool

record ('v, 'o, 's) broker =
  layer_names :: "string list"
  base_value :: 'v
  slots :: "string \<rightharpoonup> 'o"
  published :: 'v
  subscriptions :: "'s subscription list"

text \<open>
  Modelled from the spec: \<open>Snapshot\<close> is the sequence of the non-empty overlays in
  precedence order, and the effective value folds it onto the base.
\<close>

definition Snapshot :: "('v, 'o, 's) broker \<Rightarrow> 'o list" where
  "Snapshot b = List.map_filter (slots b) (layer_names b)"

definition recompute :: "('v, 'o, 's) broker_ops \<Rightarrow> ('v, 'o, 's) broker \<Rightarrow> 'v" where
  "recompute ops b = foldl (op_merge ops) (base_value b) (Snapshot b)"

text \<open>
  Modelled from the spec: delivery into a bounded queue never blocks; on overflow the
  oldest pending item is dropped and the missed-update marker is set. A subscription
  that is no longer live receives nothing.
\<close>

definition deliver :: "nat \<Rightarrow> 's \<Rightarrow> 's subscription \<Rightarrow> 's subscription" where
  "deliver depth x s =
     (if \<not> sub_live s then s
      else if length (sub_queue s) < depth then s\<lparr>sub_queue := sub_queue s @ [x]\<rparr>
      else s\<lparr>sub_queue := tl (sub_queue s) @ [x], sub_missed := True\<rparr>)"

text \<open>
  Modelled from the spec: \<open>Notify(old, new)\<close> compares the sub-value of each
  subscribed path in the old and the new effective value with the injected equality
  and, on a difference, enqueues the new sub-value to the subscriptions at that path.
\<close>

definition Notify ::
    "('v, 'o, 's) broker_ops \<Rightarrow> 'v \<Rightarrow> 'v \<Rightarrow> 's subscription list \<Rightarrow> 's subscription list" where
  "Notify ops old new subs =
     map (\<lambda>s. case map_of (op_paths ops) (sub_path s) of
                 None \<Rightarrow> s
               | Some acc \<Rightarrow>
                   if op_equal ops (acc old) (acc new) then s
                   else deliver (op_queue_depth ops) (acc new) s) subs"

text \<open>
  Modelled from the spec: one mutation of a layer's slot followed by exactly one
  recompute-and-notify cycle and the publication of the new effective value.
\<close>

definition commit ::
    "('v, 'o, 's) broker_ops \<Rightarrow> string \<Rightarrow> 'o option \<Rightarrow> ('v, 'o, 's) broker \<Rightarrow> ('v, 'o, 's) broker" where
  "commit ops name ov b =
     (let b1 = b\<lparr>slots := (slots b)(name := ov)\<rparr>;
          new = recompute ops b1
      in b1\<lparr>published := new,
             subscriptions := Notify ops (published b) new (subscriptions b)\<rparr>)"

definition SetLayer ::
    "('v, 'o, 's) broker_ops \<Rightarrow> string \<Rightarrow> 'o \<Rightarrow> ('v, 'o, 's) broker
       \<Rightarrow> ('v, 'o, 's) broker \<times> broker_error option" where
  "SetLayer ops name ov b =
     (if name \<notin> set (layer_names b) then (b, Some (UnknownLayer name))
      else (commit ops name (Some ov) b, None))"

definition ClearLayer ::
    "('v, 'o, 's) broker_ops \<Rightarrow> string \<Rightarrow> ('v, 'o, 's) broker
       \<Rightarrow> ('v, 'o, 's) broker \<times> broker_error option" where
  "ClearLayer ops name b =
     (if name \<notin> set (layer_names b) then (b, Some (UnknownLayer name))
      else (commit ops name None b, None))"

text \<open>
  Modelled from the spec: \<open>Transaction(name, edit)\<close> applies \<open>edit\<close> to a working
  copy of the layer's overlay; an error reported by \<open>edit\<close> aborts the transaction,
  otherwise the edited overlay is committed with one recompute-and-notify cycle.
\<close>

definition Transaction ::
    "('v, 'o, 's) broker_ops \<Rightarrow> string \<Rightarrow> ('o option \<Rightarrow> string + 'o option)
       \<Rightarrow> ('v, 'o, 's) broker \<Rightarrow> ('v, 'o, 's) broker \<times> broker_error option" where
  "Transaction ops name edit b =
     (if name \<notin> set (layer_names b) then (b, Some (UnknownLayer name))
      else (case edit (slots b name) of
              Inl msg \<Rightarrow> (b, Some (TransactionAborted msg))
            | Inr ov \<Rightarrow> (commit ops name ov b, None)))"

text \<open>A broker over the merge playground's types, with one subscription on \<open>Port\<close>.\<close>

definition config_ops :: "(Config, InputConfig, go_int) broker_ops" where
  "config_ops =
     \<lparr>op_merge = (\<lambda>c ov. mergeInputToConfig c (Some ov)), op_equal = (=),
      op_paths = [(''Port'', Port)], op_queue_depth = 4\<rparr>"

definition scenario_broker :: "(Config, InputConfig, go_int) broker" where
  "scenario_broker =
     \<lparr>layer_names = [''file'', ''env''], base_value = scenario_base,
      slots = [''file'' \<mapsto> scenario_file],
      published = spec_effective scenario_base [Some scenario_file],
      subscriptions = [\<lparr>sub_path = ''Port'', sub_live = True, sub_queue = [],
                        sub_missed = False\<rparr>]\<rparr>"

text \<open>An edit that reports an error whatever its working copy holds.\<close>

definition failing_edit :: "InputConfig option \<Rightarrow> string + InputConfig option" where
  "failing_edit ov = Inl ''rejected''"

text \<open>A broker with the scenario's two layers and nothing set yet.\<close>

definition fresh_broker :: "(Config, InputConfig, go_int) broker" where
  "fresh_broker =
     \<lparr>layer_names = [''file'', ''env''], base_value = scenario_base, slots = Map.empty,
      published = scenario_base, subscriptions = []\<rparr>"

section \<open>Subscribable paths of the generator (BuildPaths)\<close>

text \<open>
  \<open>codegen.FieldInfo\<close> and \<open>codegen.StructInfo\<close>, with the fields that
  \<open>BuildPaths\<close> and its helpers read.
\<close>

record FieldInfo =
  f_Name :: string
  f_TypeName :: string
  f_TypePkg :: string
  f_IsPointer :: bool
  f_IsSlice :: bool
  f_IsMap :: bool
  f_IsStruct :: bool

record StructInfo =
  s_Name :: string
  s_Fields :: "FieldInfo list"

record PathInfo =
  p_Path :: string
  p_PathConst :: string
  p_Segments :: "string list"
  p_FieldName :: string
  p_FieldType :: string
  p_IsPointer :: bool
  p_IsSlice :: bool
  p_IsMap :: bool
  p_IsLocalStruct :: bool
  p_ParentIsPtr :: bool
  p_NilCheckPath :: string
  p_AccessorExpr :: string
  p_ZeroValue :: string
  p_ParentTypeName :: string
  p_NeedsTimeImport :: bool
  p_SkipTransactionSet :: bool

text \<open>\<open>strings.Split(s, ".")\<close> and \<open>strings.ReplaceAll(s, ".", "")\<close>.\<close>

fun split_on :: "char \<Rightarrow> string \<Rightarrow> string list" where
  "split_on c [] = [[]]"
| "split_on c (x # xs) =
     (if x = c then [] # split_on c xs
      else (case split_on c xs of [] \<Rightarrow> [[x]] | w # ws \<Rightarrow> (x # w) # ws))"

definition remove_dots :: "string \<Rightarrow> string" where
  "remove_dots s = filter (\<lambda>c. c \<noteq> CHR ''.'') s"

definition fieldTypeString :: "FieldInfo \<Rightarrow> string" where
  "fieldTypeString f =
     (if f_IsPointer f then
        (if f_TypePkg f \<noteq> [] then ''*'' @ f_TypePkg f @ ''.'' @ f_TypeName f
         else ''*'' @ f_TypeName f)
      else if f_IsSlice f then f_TypeName f
      else if f_IsMap f then f_TypeName f
      else if f_TypePkg f \<noteq> [] then f_TypePkg f @ ''.'' @ f_TypeName f
      else f_TypeName f)"

definition zeroValueFor :: "FieldInfo \<Rightarrow> string" where
  "zeroValueFor f =
     (if f_IsPointer f \<or> f_IsSlice f \<or> f_IsMap f then ''nil''
      else if f_IsStruct f then
        (if f_TypePkg f \<noteq> [] then f_TypePkg f @ ''.'' @ f_TypeName f @ ''{}''
         else f_TypeName f @ ''{}'')
      else if f_TypeName f = ''string'' then [CHR 0x22, CHR 0x22]
      else if f_TypeName f = ''bool'' then ''false''
      else if f_TypeName f \<in> set [''int'', ''int8'', ''int16'', ''int32'', ''int64'',
                ''uint'', ''uint8'', ''uint16'', ''uint32'', ''uint64'',
                ''float32'', ''float64'', ''byte'', ''rune''] then ''0''
      else if f_TypePkg f = ''time'' \<and> f_TypeName f = ''Time'' then ''time.Time{}''
      else f_TypeName f @ ''{}'')"

text \<open>
  The body of the loop over \<open>info.Fields\<close> up to the append: the \<open>PathInfo\<close> of
  one field.
\<close>

definition pathInfoOf :: "FieldInfo \<Rightarrow> string \<Rightarrow> string \<Rightarrow> string \<Rightarrow> bool \<Rightarrow> PathInfo" where
  "pathInfoOf field prefix accessorPrefix parentTypeName parentIsPtr =
     (let path = (if prefix \<noteq> [] then prefix @ ''.'' @ f_Name field else f_Name field);
          accessor = accessorPrefix @ ''.'' @ f_Name field;
          pathConst = remove_dots path;
          nilCheckPath = (if parentIsPtr then accessorPrefix else []);
          isLocalStruct = (f_IsStruct field \<and> f_TypePkg field = [] \<and> \<not> f_IsSlice field
                            \<and> \<not> f_IsMap field)
      in \<lparr>p_Path = path, p_PathConst = pathConst, p_Segments = split_on CHR ''.'' path,
          p_FieldName = f_Name field, p_FieldType = fieldTypeString field,
          p_IsPointer = f_IsPointer field, p_IsSlice = f_IsSlice field,
          p_IsMap = f_IsMap field, p_IsLocalStruct = isLocalStruct,
          p_ParentIsPtr = parentIsPtr, p_NilCheckPath = nilCheckPath,
          p_AccessorExpr = accessor, p_ZeroValue = zeroValueFor field,
          p_ParentTypeName = parentTypeName,
          p_NeedsTimeImport = (f_TypePkg field = ''time''),
          p_SkipTransactionSet = (f_IsPointer field \<and> isLocalStruct)\<rparr>)"

text \<open>
  \<open>buildPathsRecursive\<close> calls itself for every local struct field found in the
  nested map, and nothing in it bounds the depth of these calls. The model counts the
  call depth: the first argument is the number of nested calls still allowed, and
  \<open>None\<close> is a call chain that did not come back within it. The loop over the fields
  is the fold; \<open>paths\<close> is the slice the calls append to.
\<close>

fun buildPathsRecursive ::
    "nat \<Rightarrow> StructInfo \<Rightarrow> (string \<rightharpoonup> StructInfo) \<Rightarrow> string \<Rightarrow> string \<Rightarrow> string \<Rightarrow> bool
       \<Rightarrow> PathInfo list \<Rightarrow> PathInfo list option" where
  "buildPathsRecursive 0 info nestedMap prefix accessorPrefix parentTypeName parentIsPtr paths
     = None"
| "buildPathsRecursive (Suc depth) info nestedMap prefix accessorPrefix parentTypeName
       parentIsPtr paths =
     foldl
       (\<lambda>acc field.
          case acc of
            None \<Rightarrow> None
          | Some paths \<Rightarrow>
             (let pi = pathInfoOf field prefix accessorPrefix parentTypeName parentIsPtr;
                  paths = paths @ [pi]
              in if f_IsStruct field \<and> f_TypePkg field = [] \<and> \<not> f_IsSlice field
                     \<and> \<not> f_IsMap field
                 then (case nestedMap (f_TypeName field) of
                         Some nestedInfo \<Rightarrow>
                           buildPathsRecursive depth nestedInfo nestedMap (p_Path pi)
                             (p_AccessorExpr pi) (f_TypeName field)
                             (f_IsPointer field \<or> parentIsPtr) paths
                       | None \<Rightarrow> Some paths)
                 else Some paths))
       (Some paths) (s_Fields info)"

definition BuildPaths :: "nat \<Rightarrow> StructInfo \<Rightarrow> StructInfo list \<Rightarrow> PathInfo list option" where
  "BuildPaths depth info nested =
     (let nestedMap = foldl (\<lambda>m n. m(s_Name n \<mapsto> n)) Map.empty nested
      in buildPathsRecursive depth info nestedMap [] ''m.config'' [] False [])"

text \<open>
  A linked list beside its owner: \<open>type Queue struct { Head *Node }\<close> and
  \<open>type Node struct { Value string; Next *Node }\<close>. \<open>FindNestedStructs\<close> on
  \<open>Queue\<close> returns \<open>[Node]\<close>: its \<open>seen\<close> set stops it at the second
  \<open>Node\<close>.
\<close>

definition basic_field :: "string \<Rightarrow> string \<Rightarrow> FieldInfo" where
  "basic_field name ty =
     \<lparr>f_Name = name, f_TypeName = ty, f_TypePkg = [], f_IsPointer = False,
      f_IsSlice = False, f_IsMap = False, f_IsStruct = False\<rparr>"

definition Node_info :: StructInfo where
  "Node_info =
     \<lparr>s_Name = ''Node'',
      s_Fields = [basic_field ''Value'' ''string'',
                  (basic_field ''Next'' ''Node'')\<lparr>f_IsPointer := True, f_IsStruct := True\<rparr>]\<rparr>"

definition Queue_info :: StructInfo where
  "Queue_info =
     \<lparr>s_Name = ''Queue'',
      s_Fields = [(basic_field ''Head'' ''Node'')\<lparr>f_IsPointer := True, f_IsStruct := True\<rparr>]\<rparr>"

text \<open>The acyclic example of the repository: \<open>Config\<close> with \<open>Home\<close>.\<close>

definition Home_info :: StructInfo where
  "Home_info =
     \<lparr>s_Name = ''Home'',
      s_Fields = [basic_field ''Address'' ''string'', basic_field ''City'' ''string'',
                  basic_field ''ZipCode'' ''string'']\<rparr>"

definition NestedConfig_info :: StructInfo where
  "NestedConfig_info =
     \<lparr>s_Name = ''Config'',
      s_Fields = [basic_field ''Name'' ''string'',
                  (basic_field ''Home'' ''Home'')\<lparr>f_IsStruct := True\<rparr>]\<rparr>"

section \<open>The manual deep copy (package copyobjects), over an explicit store\<close>

text \<open>
  Whether a copy shares state with its original depends on aliasing, so the copy is
  modelled over a store: a list of objects, an address being an index into it. A
  pointer, a slice and a map are addresses of the pointee, of the backing array and of
  the map object (\<open>None\<close> is nil). A map object is the list of its entries.
\<close>

type_synonym addr = nat

text \<open>
  A value of type \<open>any\<close>, as \<open>deepCopyAny\<close> sees it. Its type switch has the cases
  \<open>map[string]any\<close>, \<open>[]any\<close>, \<open>[]string\<close> and \<open>[]int\<close>;
  \<open>map[string]string\<close> stands for the reference types it has no case for.
\<close>

datatype hval =
    HNil
  | HBool bool
  | HString string
  | HInt go_int
  | HFloat64 go_float64
  | HMapAny "addr option"
  | HSliceAny "addr option"
  | HSliceString "addr option"
  | HSliceInt "addr option"
  | HMapString "addr option"

datatype obj =
    OBool bool
  | OString string
  | OTime Time
  | ODatabaseConfig DatabaseConfig
  | OStrings "string list"
  | OInts "go_int list"
  | OTags "Tag list"
  | OMapString "(string \<times> string) list"
  | OMapAny "(string \<times> hval) list"
  | OAnys "hval list"

type_synonym heap = "obj list"

definition alloc :: "obj \<Rightarrow> heap \<Rightarrow> addr \<times> heap" where
  "alloc x h = (length h, h @ [x])"

definition load :: "heap \<Rightarrow> addr \<Rightarrow> obj option" where
  "load h a = (if a < length h then Some (h ! a) else None)"

definition store :: "heap \<Rightarrow> addr \<Rightarrow> obj \<Rightarrow> heap" where
  "store h a x = h[a := x]"

text \<open>\<open>m[k] = v\<close> on the entries of a map object.\<close>

fun put :: "'k \<Rightarrow> 'v \<Rightarrow> ('k \<times> 'v) list \<Rightarrow> ('k \<times> 'v) list" where
  "put k v [] = [(k, v)]"
| "put k v ((k', v') # m) = (if k = k' then (k, v) # m else (k', v') # put k v m)"

record HConfig =
  h_Name :: string
  h_Port :: go_int
  h_MaxRetries :: go_int32
  h_Timeout :: go_int64
  h_Rate :: go_float64
  h_Enabled :: bool
  h_EnabledPtr :: "addr option"
  h_Description :: "addr option"
  h_Hosts :: "addr option"
  h_Ports :: "addr option"
  h_Tags :: "addr option"
  h_Labels :: "addr option"
  h_Metadata :: "addr option"
  h_Database :: DatabaseConfig
  h_DatabasePtr :: "addr option"
  h_CreatedAt :: Time
  h_UpdatedAt :: "addr option"

definition HConfig0 :: HConfig where
  "HConfig0 =
     \<lparr>h_Name = [], h_Port = 0, h_MaxRetries = 0, h_Timeout = 0, h_Rate = 0,
      h_Enabled = False, h_EnabledPtr = None, h_Description = None, h_Hosts = None,
      h_Ports = None, h_Tags = None, h_Labels = None, h_Metadata = None,
      h_Database = DatabaseConfig0, h_DatabasePtr = None, h_CreatedAt = Time 0 0,
      h_UpdatedAt = None\<rparr>"

text \<open>
  \<open>deepCopyAny\<close>. The recursion follows the store, which may hold a map that
  contains itself, so the first argument bounds the depth of the calls and \<open>None\<close>
  is a call that did not return within it (or a store that is not well typed). A map
  or slice case makes the new object first and then fills it entry by entry.
\<close>

fun deepCopyAny :: "nat \<Rightarrow> hval \<Rightarrow> heap \<Rightarrow> (hval \<times> heap) option" where
  "deepCopyAny 0 v h = None"
| "deepCopyAny (Suc n) v h =
     (case v of
        HNil \<Rightarrow> Some (HNil, h)
      | HMapAny p \<Rightarrow>
          (case (case p of None \<Rightarrow> Some (OMapAny []) | Some a \<Rightarrow> load h a) of
             Some (OMapAny val) \<Rightarrow>
               (let (m, h1) = alloc (OMapAny []) h
                in map_option (\<lambda>h2. (HMapAny (Some m), h2))
                     (foldl
                        (\<lambda>acc kv. case acc of
                             None \<Rightarrow> None
                           | Some h2 \<Rightarrow>
                               (case deepCopyAny n (snd kv) h2 of
                                  None \<Rightarrow> None
                                | Some (v', h3) \<Rightarrow>
                                    (case load h3 m of
                                       Some (OMapAny es) \<Rightarrow>
                                         Some (store h3 m (OMapAny (put (fst kv) v' es)))
                                     | _ \<Rightarrow> None)))
                        (Some h1) val))
           | _ \<Rightarrow> None)
      | HSliceAny p \<Rightarrow>
          (case (case p of None \<Rightarrow> Some (OAnys []) | Some a \<Rightarrow> load h a) of
             Some (OAnys val) \<Rightarrow>
               (let (s, h1) = alloc (OAnys []) h
                in map_option (\<lambda>h2. (HSliceAny (Some s), h2))
                     (foldl
                        (\<lambda>acc x. case acc of
                             None \<Rightarrow> None
                           | Some h2 \<Rightarrow>
                               (case deepCopyAny n x h2 of
                                  None \<Rightarrow> None
                                | Some (v', h3) \<Rightarrow>
                                    (case load h3 s of
                                       Some (OAnys es) \<Rightarrow> Some (store h3 s (OAnys (es @ [v'])))
                                     | _ \<Rightarrow> None)))
                        (Some h1) val))
           | _ \<Rightarrow> None)
      | HSliceString p \<Rightarrow>
          (case (case p of None \<Rightarrow> Some (OStrings []) | Some a \<Rightarrow> load h a) of
             Some (OStrings val) \<Rightarrow>
               (let (s, h1) = alloc (OStrings val) h in Some (HSliceString (Some s), h1))
           | _ \<Rightarrow> None)
      | HSliceInt p \<Rightarrow>
          (case (case p of None \<Rightarrow> Some (OInts []) | Some a \<Rightarrow> load h a) of
             Some (OInts val) \<Rightarrow>
               (let (s, h1) = alloc (OInts val) h in Some (HSliceInt (Some s), h1))
           | _ \<Rightarrow> None)
      | _ \<Rightarrow> Some (v, h))"

text \<open>
  \<open>v := *p; dst.f = &v\<close>, and \<open>make\<close> followed by \<open>copy\<close> or
  \<open>maps.Copy\<close> for a slice or map of plain values: a new object with the content of
  the old one. A nil field stays nil.
\<close>

definition copy_cell :: "addr option \<Rightarrow> heap \<Rightarrow> (addr option \<times> heap) option" where
  "copy_cell p h =
     (case p of
        None \<Rightarrow> Some (None, h)
      | Some a \<Rightarrow>
          (case load h a of
             None \<Rightarrow> None
           | Some x \<Rightarrow> (let (a', h') = alloc x h in Some (Some a', h'))))"

text \<open>The \<open>Metadata\<close> block of \<open>CopyManual\<close>.\<close>

definition copy_metadata :: "nat \<Rightarrow> addr option \<Rightarrow> heap \<Rightarrow> (addr option \<times> heap) option" where
  "copy_metadata n p h =
     (case p of
        None \<Rightarrow> Some (None, h)
      | Some a \<Rightarrow>
          (case load h a of
             Some (OMapAny val) \<Rightarrow>
               (let (m, h1) = alloc (OMapAny []) h
                in map_option (\<lambda>h2. (Some m, h2))
                     (foldl
                        (\<lambda>acc kv. case acc of
                             None \<Rightarrow> None
                           | Some h2 \<Rightarrow>
                               (case deepCopyAny n (snd kv) h2 of
                                  None \<Rightarrow> None
                                | Some (v', h3) \<Rightarrow>
                                    (case load h3 m of
                                       Some (OMapAny es) \<Rightarrow>
                                         Some (store h3 m (OMapAny (put (fst kv) v' es)))
                                     | _ \<Rightarrow> None)))
                        (Some h1) val))
           | _ \<Rightarrow> None))"

definition CopyManual ::
    "nat \<Rightarrow> HConfig option \<Rightarrow> heap \<Rightarrow> (HConfig option \<times> heap) option" where
  "CopyManual n cp h =
     (case cp of
        None \<Rightarrow> Some (None, h)
      | Some c \<Rightarrow>
          (let dst = HConfig0
                 \<lparr>h_Name := h_Name c, h_Port := h_Port c, h_MaxRetries := h_MaxRetries c,
                  h_Timeout := h_Timeout c, h_Rate := h_Rate c, h_Enabled := h_Enabled c,
                  h_Database := h_Database c, h_CreatedAt := h_CreatedAt c\<rparr>
           in do {
                (p1, h) \<leftarrow> copy_cell (h_EnabledPtr c) h;
                (p2, h) \<leftarrow> copy_cell (h_Description c) h;
                (p3, h) \<leftarrow> copy_cell (h_DatabasePtr c) h;
                (p4, h) \<leftarrow> copy_cell (h_UpdatedAt c) h;
                (p5, h) \<leftarrow> copy_cell (h_Hosts c) h;
                (p6, h) \<leftarrow> copy_cell (h_Ports c) h;
                (p7, h) \<leftarrow> copy_cell (h_Tags c) h;
                (p8, h) \<leftarrow> copy_cell (h_Labels c) h;
                (p9, h) \<leftarrow> copy_metadata n (h_Metadata c) h;
                Some (Some (dst\<lparr>h_EnabledPtr := p1, h_Description := p2,
                                h_DatabasePtr := p3, h_UpdatedAt := p4, h_Hosts := p5,
                                h_Ports := p6, h_Tags := p7, h_Labels := p8,
                                h_Metadata := p9\<rparr>), h)
              }))"

text \<open>
  What a holder of a configuration reads under \<open>Metadata\<close>: the content of the
  map, followed through the store to a tree of values.
\<close>

fun read_any :: "nat \<Rightarrow> heap \<Rightarrow> hval \<Rightarrow> any option" where
  "read_any 0 h v = None"
| "read_any (Suc n) h v =
     (case v of
        HNil \<Rightarrow> Some ANil
      | HBool b \<Rightarrow> Some (ABool b)
      | HString s \<Rightarrow> Some (AString s)
      | HInt i \<Rightarrow> Some (AInt i)
      | HFloat64 f \<Rightarrow> Some (AFloat64 f)
      | HMapAny p \<Rightarrow>
          (case (case p of None \<Rightarrow> Some (OMapAny []) | Some a \<Rightarrow> load h a) of
             Some (OMapAny es) \<Rightarrow>
               map_option AMapAny
                 (foldr (\<lambda>kv acc. case (read_any n h (snd kv), acc) of
                                    (Some x, Some r) \<Rightarrow> Some ((fst kv, x) # r)
                                  | _ \<Rightarrow> None) es (Some []))
           | _ \<Rightarrow> None)
      | HSliceAny p \<Rightarrow>
          (case (case p of None \<Rightarrow> Some (OAnys []) | Some a \<Rightarrow> load h a) of
             Some (OAnys es) \<Rightarrow>
               map_option ASliceAny
                 (foldr (\<lambda>x acc. case (read_any n h x, acc) of
                                   (Some y, Some r) \<Rightarrow> Some (y # r)
                                 | _ \<Rightarrow> None) es (Some []))
           | _ \<Rightarrow> None)
      | HSliceString p \<Rightarrow>
          (case (case p of None \<Rightarrow> Some (OStrings []) | Some a \<Rightarrow> load h a) of
             Some (OStrings xs) \<Rightarrow> Some (ASliceString xs) | _ \<Rightarrow> None)
      | HSliceInt p \<Rightarrow>
          (case (case p of None \<Rightarrow> Some (OInts []) | Some a \<Rightarrow> load h a) of
             Some (OInts xs) \<Rightarrow> Some (ASliceInt xs) | _ \<Rightarrow> None)
      | HMapString p \<Rightarrow>
          (case (case p of None \<Rightarrow> Some (OMapString []) | Some a \<Rightarrow> load h a) of
             Some (OMapString es) \<Rightarrow> Some (AMapString es) | _ \<Rightarrow> None))"

definition read_metadata :: "nat \<Rightarrow> heap \<Rightarrow> HConfig \<Rightarrow> any option" where
  "read_metadata n h c = read_any n h (HMapAny (h_Metadata c))"

text \<open>
  The statement \<open>c.Metadata[k].(map[string]string)[k2] = v\<close> of a holder of \<open>c\<close>;
  \<open>None\<close> where Go panics (nil map, missing key or another dynamic type).
\<close>

definition set_metadata_label ::
    "HConfig \<Rightarrow> string \<Rightarrow> string \<Rightarrow> string \<Rightarrow> heap \<Rightarrow> heap option" where
  "set_metadata_label c k k2 v h =
     (case h_Metadata c of
        None \<Rightarrow> None
      | Some a \<Rightarrow>
          (case load h a of
             Some (OMapAny es) \<Rightarrow>
               (case map_of es k of
                  Some (HMapString (Some b)) \<Rightarrow>
                    (case load h b of
                       Some (OMapString m) \<Rightarrow> Some (store h b (OMapString (put k2 v m)))
                     | _ \<Rightarrow> None)
                | _ \<Rightarrow> None)
           | _ \<Rightarrow> None))"

text \<open>
  The statement \<open>c.Metadata[k].([]string)[i] = v\<close>; \<open>None\<close> where Go panics.
\<close>

definition set_metadata_elem ::
    "HConfig \<Rightarrow> string \<Rightarrow> nat \<Rightarrow> string \<Rightarrow> heap \<Rightarrow> heap option" where
  "set_metadata_elem c k i v h =
     (case h_Metadata c of
        None \<Rightarrow> None
      | Some a \<Rightarrow>
          (case load h a of
             Some (OMapAny es) \<Rightarrow>
               (case map_of es k of
                  Some (HSliceString (Some b)) \<Rightarrow>
                    (case load h b of
                       Some (OStrings xs) \<Rightarrow>
                         (if i < length xs then Some (store h b (OStrings (xs[i := v])))
                          else None)
                     | _ \<Rightarrow> None)
                | _ \<Rightarrow> None)
           | _ \<Rightarrow> None))"

text \<open>
  A configuration whose \<open>Metadata\<close> holds a \<open>map[string]string\<close>:
  \<open>Config{Metadata: map[string]any{"limits": map[string]string{"tier": "gold"}}}\<close>.
\<close>

definition limits_heap :: heap where
  "limits_heap =
     [OMapString [(''tier'', ''gold'')], OMapAny [(''limits'', HMapString (Some 0))]]"

definition limits_config :: HConfig where
  "limits_config = HConfig0\<lparr>h_Metadata := Some 1\<rparr>"

text \<open>The same with a \<open>[]string\<close>, which \<open>deepCopyAny\<close> has a case for.\<close>

definition hosts_heap :: heap where
  "hosts_heap =
     [OStrings [''a'', ''b''], OMapAny [(''hosts'', HSliceString (Some 0))]]"

section \<open>The JSON round-trip merge (MergeJSON)\<close>

text \<open>
  \<open>MergeJSON\<close> is \<open>json.Marshal\<close> of each input followed by
  \<open>json.Unmarshal\<close> into the result. What the repository decides is in the struct
  tags (every field of \<open>InputConfig\<close> is \<open>omitempty\<close>) and in the two target
  types; how a single string, time or dynamic value is written and read back is the
  library's. The library's part is a parameter: what such a value has become after
  \<open>Marshal\<close> and \<open>Unmarshal\<close>, \<open>None\<close> where \<open>Marshal\<close> reports an error.
  (A string with invalid UTF-8 comes back rewritten, a time outside the years 0 to 9999
  is an error, a number under \<open>map[string]any\<close> comes back as a \<open>float64\<close>.)
\<close>

record json_lib =
  lib_string :: "string \<Rightarrow> string"
  lib_time :: "Time \<Rightarrow> Time option"
  lib_strmap :: "(string \<rightharpoonup> string) \<Rightarrow> (string \<rightharpoonup> string)"
  lib_anymap :: "(string \<rightharpoonup> any) \<Rightarrow> (string \<rightharpoonup> any) option"

text \<open>
  A \<open>float64\<close> is NaN or an infinity when its eleven exponent bits are all set;
  \<open>Marshal\<close> reports an error for such a value.
\<close>

definition nan_or_inf :: "go_float64 \<Rightarrow> bool" where
  "nan_or_inf w = (and (drop_bit 52 w) 0x7FF = 0x7FF)"

text \<open>
  A document, as the decoder reads it: an object is the list of its members in the
  order written; a leaf is kept as the Go value it decodes to, a number with the type
  it was written from.
\<close>

datatype json =
    JBool bool
  | JInt int
  | JFloat go_float64
  | JString string
  | JTime Time
  | JStrMap "string \<rightharpoonup> string"
  | JAnyMap "string \<rightharpoonup> any"
  | JArray "json list"
  | JObject "(string \<times> json) list"

text \<open>One \<open>omitempty\<close> member: absent for a nil pointer.\<close>

definition member :: "string \<Rightarrow> json option \<Rightarrow> (string \<times> json) list" where
  "member k v = (case v of None \<Rightarrow> [] | Some j \<Rightarrow> [(k, j)])"

text \<open>An \<open>omitempty\<close> slice member: absent for a nil and for an empty slice.\<close>

definition slice_member :: "string \<Rightarrow> ('a \<Rightarrow> json) \<Rightarrow> 'a list option \<Rightarrow> (string \<times> json) list" where
  "slice_member k enc v =
     (case v of
        None \<Rightarrow> []
      | Some xs \<Rightarrow> if xs = [] then [] else [(k, JArray (map enc xs))])"

text \<open>An \<open>omitempty\<close> map member: absent for a nil and for an empty map.\<close>

definition map_member ::
    "string \<Rightarrow> (('k \<rightharpoonup> 'v) \<Rightarrow> json) \<Rightarrow> ('k \<rightharpoonup> 'v) option \<Rightarrow> (string \<times> json) list" where
  "map_member k enc v =
     (case v of
        None \<Rightarrow> []
      | Some m \<Rightarrow> if m = Map.empty then [] else [(k, enc m)])"

definition marshalInputTag :: "json_lib \<Rightarrow> InputTag \<Rightarrow> json" where
  "marshalInputTag lib t =
     JObject (member ''key'' (map_option (\<lambda>s. JString (lib_string lib s)) (it_Key t)) @
              member ''value'' (map_option (\<lambda>s. JString (lib_string lib s)) (it_Value t)))"

definition marshalInputDatabaseConfig :: "json_lib \<Rightarrow> InputDatabaseConfig \<Rightarrow> json" where
  "marshalInputDatabaseConfig lib d =
     JObject (member ''host'' (map_option (\<lambda>s. JString (lib_string lib s)) (id_Host d)) @
              member ''port'' (map_option (\<lambda>n. JInt (sint n)) (id_Port d)) @
              member ''username'' (map_option (\<lambda>s. JString (lib_string lib s)) (id_Username d)) @
              member ''password'' (map_option (\<lambda>s. JString (lib_string lib s)) (id_Password d)) @
              member ''ssl_mode'' (map_option (\<lambda>s. JString (lib_string lib s)) (id_SSLMode d)))"

text \<open>
  \<open>json.Marshal(input)\<close>: \<open>None\<close> is an error (a NaN or infinite \<open>Rate\<close>, a time
  or a \<open>Metadata\<close> value the library refuses); otherwise the members of the set
  fields in the order of the struct.
\<close>

definition marshal_error :: "json_lib \<Rightarrow> InputConfig \<Rightarrow> bool" where
  "marshal_error lib i =
     ((case i_Rate i of None \<Rightarrow> False | Some f \<Rightarrow> nan_or_inf f) \<or>
      (case i_Metadata i of
         None \<Rightarrow> False
       | Some m \<Rightarrow> m \<noteq> Map.empty \<and> lib_anymap lib m = None) \<or>
      (case i_CreatedAt i of None \<Rightarrow> False | Some t \<Rightarrow> lib_time lib t = None) \<or>
      (case i_UpdatedAt i of None \<Rightarrow> False | Some t \<Rightarrow> lib_time lib t = None))"

definition marshalInputConfig :: "json_lib \<Rightarrow> InputConfig \<Rightarrow> json option" where
  "marshalInputConfig lib i =
     (if marshal_error lib i then None
      else Some (JObject (
        member ''name'' (map_option (\<lambda>s. JString (lib_string lib s)) (i_Name i)) @
        member ''port'' (map_option (\<lambda>n. JInt (sint n)) (i_Port i)) @
        member ''max_retries'' (map_option (\<lambda>n. JInt (sint n)) (i_MaxRetries i)) @
        member ''timeout'' (map_option (\<lambda>n. JInt (sint n)) (i_Timeout i)) @
        member ''rate'' (map_option JFloat (i_Rate i)) @
        member ''enabled'' (map_option JBool (i_Enabled i)) @
        member ''enabled_ptr'' (map_option JBool (i_EnabledPtr i)) @
        member ''description'' (map_option (\<lambda>s. JString (lib_string lib s)) (i_Description i)) @
        slice_member ''hosts'' (\<lambda>s. JString (lib_string lib s)) (i_Hosts i) @
        slice_member ''ports'' (\<lambda>n. JInt (sint n)) (i_Ports i) @
        slice_member ''tags'' (marshalInputTag lib) (i_Tags i) @
        map_member ''labels'' (\<lambda>m. JStrMap (lib_strmap lib m)) (i_Labels i) @
        map_member ''metadata''
          (\<lambda>m. JAnyMap (case lib_anymap lib m of None \<Rightarrow> Map.empty | Some m' \<Rightarrow> m'))
          (i_Metadata i) @
        member ''database'' (map_option (marshalInputDatabaseConfig lib) (i_Database i)) @
        member ''database_ptr'' (map_option (marshalInputDatabaseConfig lib) (i_DatabasePtr i)) @
        member ''created_at''
          (map_option (\<lambda>t. JTime (case lib_time lib t of None \<Rightarrow> t | Some t' \<Rightarrow> t'))
             (i_CreatedAt i)) @
        member ''updated_at''
          (map_option (\<lambda>t. JTime (case lib_time lib t of None \<Rightarrow> t | Some t' \<Rightarrow> t'))
             (i_UpdatedAt i)))))"

text \<open>
  \<open>json.Unmarshal\<close> into a value that already holds data. A member whose value does
  not fit the target, or a number that overflows it, is skipped and the target keeps
  what it held. An object is decoded member by member into the existing struct; a map
  member adds its entries to the existing map, made when nil; a pointer target is
  allocated when nil and decoded into otherwise.
\<close>

definition decodeInt :: "int \<Rightarrow> int \<Rightarrow> int \<Rightarrow> bool" where
  "decodeInt lo hi n = (lo \<le> n \<and> n \<le> hi)"

definition decodeString :: "json \<Rightarrow> string \<Rightarrow> string" where
  "decodeString j old = (case j of JString s \<Rightarrow> s | _ \<Rightarrow> old)"

definition decodeGoInt :: "json \<Rightarrow> go_int \<Rightarrow> go_int" where
  "decodeGoInt j old =
     (case j of
        JInt n \<Rightarrow> if decodeInt (- (2 ^ 63)) (2 ^ 63 - 1) n then word_of_int n else old
      | _ \<Rightarrow> old)"

definition decodeGoInt32 :: "json \<Rightarrow> go_int32 \<Rightarrow> go_int32" where
  "decodeGoInt32 j old =
     (case j of
        JInt n \<Rightarrow> if decodeInt (- (2 ^ 31)) (2 ^ 31 - 1) n then word_of_int n else old
      | _ \<Rightarrow> old)"

definition decodeTagField :: "Tag \<Rightarrow> string \<times> json \<Rightarrow> Tag" where
  "decodeTagField t kv =
     (if fst kv = ''key'' then t\<lparr>t_Key := decodeString (snd kv) (t_Key t)\<rparr>
      else if fst kv = ''value'' then t\<lparr>t_Value := decodeString (snd kv) (t_Value t)\<rparr>
      else t)"

definition decodeTag :: "json \<Rightarrow> Tag \<Rightarrow> Tag" where
  "decodeTag j old = (case j of JObject ms \<Rightarrow> foldl decodeTagField old ms | _ \<Rightarrow> old)"

definition decodeDatabaseField :: "DatabaseConfig \<Rightarrow> string \<times> json \<Rightarrow> DatabaseConfig" where
  "decodeDatabaseField d kv =
     (if fst kv = ''host'' then d\<lparr>d_Host := decodeString (snd kv) (d_Host d)\<rparr>
      else if fst kv = ''port'' then d\<lparr>d_Port := decodeGoInt (snd kv) (d_Port d)\<rparr>
      else if fst kv = ''username'' then d\<lparr>d_Username := decodeString (snd kv) (d_Username d)\<rparr>
      else if fst kv = ''password'' then d\<lparr>d_Password := decodeString (snd kv) (d_Password d)\<rparr>
      else if fst kv = ''ssl_mode'' then d\<lparr>d_SSLMode := decodeString (snd kv) (d_SSLMode d)\<rparr>
      else d)"

definition decodeDatabase :: "json \<Rightarrow> DatabaseConfig \<Rightarrow> DatabaseConfig" where
  "decodeDatabase j old =
     (case j of JObject ms \<Rightarrow> foldl decodeDatabaseField old ms | _ \<Rightarrow> old)"

text \<open>
  An array into a slice: the element at an index the slice already has is decoded into
  that element, which keeps the fields the document does not mention; an element past
  the old length is decoded into a zero value. The result has the array's length.
\<close>

fun decodeArray :: "(json \<Rightarrow> 'a \<Rightarrow> 'a) \<Rightarrow> 'a \<Rightarrow> json list \<Rightarrow> 'a list \<Rightarrow> 'a list" where
  "decodeArray dec z [] old = []"
| "decodeArray dec z (j # js) old =
     dec j (case old of [] \<Rightarrow> z | x # _ \<Rightarrow> x) # decodeArray dec z js (tl old)"

definition decodeSlice ::
    "(json \<Rightarrow> 'a \<Rightarrow> 'a) \<Rightarrow> 'a \<Rightarrow> json \<Rightarrow> 'a list option \<Rightarrow> 'a list option" where
  "decodeSlice dec z j old =
     (case j of
        JArray js \<Rightarrow> Some (decodeArray dec z js (case old of None \<Rightarrow> [] | Some xs \<Rightarrow> xs))
      | _ \<Rightarrow> old)"

definition decodeConfigField :: "Config \<Rightarrow> string \<times> json \<Rightarrow> Config" where
  "decodeConfigField c kv =
     (let k = fst kv; j = snd kv in
      if k = ''name'' then c\<lparr>Name := decodeString j (Name c)\<rparr>
      else if k = ''port'' then c\<lparr>Port := decodeGoInt j (Port c)\<rparr>
      else if k = ''max_retries'' then c\<lparr>MaxRetries := decodeGoInt32 j (MaxRetries c)\<rparr>
      else if k = ''timeout'' then c\<lparr>Timeout := decodeGoInt j (Timeout c)\<rparr>
      else if k = ''rate'' then (case j of JFloat f \<Rightarrow> c\<lparr>Rate := f\<rparr> | _ \<Rightarrow> c)
      else if k = ''enabled'' then (case j of JBool b \<Rightarrow> c\<lparr>Enabled := b\<rparr> | _ \<Rightarrow> c)
      else if k = ''enabled_ptr'' then
        (case j of JBool b \<Rightarrow> c\<lparr>EnabledPtr := Some b\<rparr> | _ \<Rightarrow> c)
      else if k = ''description'' then
        (case j of JString s \<Rightarrow> c\<lparr>Description := Some s\<rparr> | _ \<Rightarrow> c)
      else if k = ''hosts'' then c\<lparr>Hosts := decodeSlice decodeString [] j (Hosts c)\<rparr>
      else if k = ''ports'' then c\<lparr>Ports := decodeSlice decodeGoInt 0 j (Ports c)\<rparr>
      else if k = ''tags'' then c\<lparr>Tags := decodeSlice decodeTag Tag0 j (Tags c)\<rparr>
      else if k = ''labels'' then
        (case j of JStrMap m \<Rightarrow> c\<lparr>Labels := mergeMap (Labels c) m\<rparr> | _ \<Rightarrow> c)
      else if k = ''metadata'' then
        (case j of JAnyMap m \<Rightarrow> c\<lparr>Metadata := mergeMap (Metadata c) m\<rparr> | _ \<Rightarrow> c)
      else if k = ''database'' then c\<lparr>Database := decodeDatabase j (Database c)\<rparr>
      else if k = ''database_ptr'' then
        (case j of
           JObject ms \<Rightarrow>
             c\<lparr>DatabasePtr :=
                 Some (decodeDatabase j
                         (case DatabasePtr c of None \<Rightarrow> DatabaseConfig0 | Some d \<Rightarrow> d))\<rparr>
         | _ \<Rightarrow> c)
      else if k = ''created_at'' then (case j of JTime t \<Rightarrow> c\<lparr>CreatedAt := t\<rparr> | _ \<Rightarrow> c)
      else if k = ''updated_at'' then
        (case j of JTime t \<Rightarrow> c\<lparr>UpdatedAt := Some t\<rparr> | _ \<Rightarrow> c)
      else c)"

definition unmarshalConfig :: "json \<Rightarrow> Config \<Rightarrow> Config" where
  "unmarshalConfig data result =
     (case data of JObject ms \<Rightarrow> foldl decodeConfigField result ms | _ \<Rightarrow> result)"

definition MergeJSON :: "json_lib \<Rightarrow> InputConfig option \<Rightarrow> InputConfig option \<Rightarrow> Config" where
  "MergeJSON lib input1 input2 =
     (let result = Config0;
          result = (case input1 of
                      None \<Rightarrow> result
                    | Some i \<Rightarrow> (case marshalInputConfig lib i of
                                   None \<Rightarrow> result
                                 | Some data \<Rightarrow> unmarshalConfig data result));
          result = (case input2 of
                      None \<Rightarrow> result
                    | Some i \<Rightarrow> (case marshalInputConfig lib i of
                                   None \<Rightarrow> result
                                 | Some data \<Rightarrow> unmarshalConfig data result))
      in result)"

text \<open>
  The library on values that it writes and reads back unchanged (valid UTF-8 strings,
  times it accepts, \<open>Metadata\<close> values of JSON's own dynamic types).
\<close>

definition exact_lib :: json_lib where
  "exact_lib = \<lparr>lib_string = (\<lambda>s. s), lib_time = Some, lib_strmap = (\<lambda>m. m),
                 lib_anymap = Some\<rparr>"

text \<open>
  The conditions of the comparison. \<open>roundtrips\<close>: every value the input sets comes
  back from the library unchanged, and \<open>Rate\<close> is finite. \<open>no_empty\<close>: no set
  slice or map is empty. \<open>tags_complete\<close>: every tag sets both its key and value.
\<close>

definition db_roundtrips :: "json_lib \<Rightarrow> InputDatabaseConfig \<Rightarrow> bool" where
  "db_roundtrips lib d =
     ((case id_Host d of None \<Rightarrow> True | Some s \<Rightarrow> lib_string lib s = s) \<and>
      (case id_Username d of None \<Rightarrow> True | Some s \<Rightarrow> lib_string lib s = s) \<and>
      (case id_Password d of None \<Rightarrow> True | Some s \<Rightarrow> lib_string lib s = s) \<and>
      (case id_SSLMode d of None \<Rightarrow> True | Some s \<Rightarrow> lib_string lib s = s))"

definition tag_roundtrips :: "json_lib \<Rightarrow> InputTag \<Rightarrow> bool" where
  "tag_roundtrips lib t =
     ((case it_Key t of None \<Rightarrow> True | Some s \<Rightarrow> lib_string lib s = s) \<and>
      (case it_Value t of None \<Rightarrow> True | Some s \<Rightarrow> lib_string lib s = s))"

definition roundtrips :: "json_lib \<Rightarrow> InputConfig \<Rightarrow> bool" where
  "roundtrips lib i =
     ((case i_Name i of None \<Rightarrow> True | Some s \<Rightarrow> lib_string lib s = s) \<and>
      (case i_Description i of None \<Rightarrow> True | Some s \<Rightarrow> lib_string lib s = s) \<and>
      (case i_Rate i of None \<Rightarrow> True | Some f \<Rightarrow> \<not> nan_or_inf f) \<and>
      (case i_Hosts i of None \<Rightarrow> True | Some xs \<Rightarrow> list_all (\<lambda>s. lib_string lib s = s) xs) \<and>
      (case i_Tags i of None \<Rightarrow> True | Some ts \<Rightarrow> list_all (tag_roundtrips lib) ts) \<and>
      (case i_Labels i of None \<Rightarrow> True | Some m \<Rightarrow> lib_strmap lib m = m) \<and>
      (case i_Metadata i of None \<Rightarrow> True | Some m \<Rightarrow> lib_anymap lib m = Some m) \<and>
      (case i_Database i of None \<Rightarrow> True | Some d \<Rightarrow> db_roundtrips lib d) \<and>
      (case i_DatabasePtr i of None \<Rightarrow> True | Some d \<Rightarrow> db_roundtrips lib d) \<and>
      (case i_CreatedAt i of None \<Rightarrow> True | Some t \<Rightarrow> lib_time lib t = Some t) \<and>
      (case i_UpdatedAt i of None \<Rightarrow> True | Some t \<Rightarrow> lib_time lib t = Some t))"

definition no_empty :: "InputConfig \<Rightarrow> bool" where
  "no_empty i =
     (i_Hosts i \<noteq> Some [] \<and> i_Ports i \<noteq> Some [] \<and> i_Tags i \<noteq> Some [] \<and>
      i_Labels i \<noteq> Some Map.empty \<and> i_Metadata i \<noteq> Some Map.empty)"

definition tags_complete :: "InputConfig \<Rightarrow> bool" where
  "tags_complete i =
     (case i_Tags i of
        None \<Rightarrow> True
      | Some ts \<Rightarrow> list_all (\<lambda>t. it_Key t \<noteq> None \<and> it_Value t \<noteq> None) ts)"


section \<open>Properties of the merge\<close>

lemma sel_assign_frame:
  "(\<And>v c. sel (upd v c) = sel c) \<Longrightarrow> sel (assign_if_set p upd dst) = sel dst"
  by (simp add: assign_if_set_def split: option.split)

lemma merge_db_fields:
  "d_Host (mergeInputDatabaseToDatabase dst src) = (case id_Host src of None \<Rightarrow> d_Host dst | Some v \<Rightarrow> v)"
  "d_Port (mergeInputDatabaseToDatabase dst src) = (case id_Port src of None \<Rightarrow> d_Port dst | Some v \<Rightarrow> v)"
  "d_Username (mergeInputDatabaseToDatabase dst src) = (case id_Username src of None \<Rightarrow> d_Username dst | Some v \<Rightarrow> v)"
  "d_Password (mergeInputDatabaseToDatabase dst src) = (case id_Password src of None \<Rightarrow> d_Password dst | Some v \<Rightarrow> v)"
  "d_SSLMode (mergeInputDatabaseToDatabase dst src) = (case id_SSLMode src of None \<Rightarrow> d_SSLMode dst | Some v \<Rightarrow> v)"
  unfolding mergeInputDatabaseToDatabase_def Let_def
  by (simp_all add: assign_if_set_def split: option.split)

lemma assign_hits:
  "Name (assign_if_set p1 (\<lambda>v c. c\<lparr>Name := v\<rparr>) dst) = (case p1 of None \<Rightarrow> Name dst | Some v \<Rightarrow> v)"
  "Port (assign_if_set p2 (\<lambda>v c. c\<lparr>Port := v\<rparr>) dst) = (case p2 of None \<Rightarrow> Port dst | Some v \<Rightarrow> v)"
  "MaxRetries (assign_if_set p3 (\<lambda>v c. c\<lparr>MaxRetries := v\<rparr>) dst) = (case p3 of None \<Rightarrow> MaxRetries dst | Some v \<Rightarrow> v)"
  "Timeout (assign_if_set p4 (\<lambda>v c. c\<lparr>Timeout := v\<rparr>) dst) = (case p4 of None \<Rightarrow> Timeout dst | Some v \<Rightarrow> v)"
  "Rate (assign_if_set p5 (\<lambda>v c. c\<lparr>Rate := v\<rparr>) dst) = (case p5 of None \<Rightarrow> Rate dst | Some v \<Rightarrow> v)"
  "Enabled (assign_if_set p6 (\<lambda>v c. c\<lparr>Enabled := v\<rparr>) dst) = (case p6 of None \<Rightarrow> Enabled dst | Some v \<Rightarrow> v)"
  "EnabledPtr (assign_if_set p7 (\<lambda>v c. c\<lparr>EnabledPtr := Some v\<rparr>) dst) = (case p7 of None \<Rightarrow> EnabledPtr dst | Some v \<Rightarrow> Some v)"
  "Description (assign_if_set p8 (\<lambda>v c. c\<lparr>Description := Some v\<rparr>) dst) = (case p8 of None \<Rightarrow> Description dst | Some v \<Rightarrow> Some v)"
  "Hosts (assign_if_set p9 (\<lambda>v c. c\<lparr>Hosts := Some v\<rparr>) dst) = (case p9 of None \<Rightarrow> Hosts dst | Some v \<Rightarrow> Some v)"
  "Ports (assign_if_set p10 (\<lambda>v c. c\<lparr>Ports := Some v\<rparr>) dst) = (case p10 of None \<Rightarrow> Ports dst | Some v \<Rightarrow> Some v)"
  "Tags (assign_if_set p11 (\<lambda>v c. c\<lparr>Tags := Some (map convertTag v)\<rparr>) dst) = (case p11 of None \<Rightarrow> Tags dst | Some v \<Rightarrow> Some (map convertTag v))"
  "Labels (assign_if_set p12 (\<lambda>v c. c\<lparr>Labels := mergeMap (Labels c) v\<rparr>) dst) = (case p12 of None \<Rightarrow> Labels dst | Some v \<Rightarrow> mergeMap (Labels dst) v)"
  "Metadata (assign_if_set p13 (\<lambda>v c. c\<lparr>Metadata := mergeMap (Metadata c) v\<rparr>) dst) = (case p13 of None \<Rightarrow> Metadata dst | Some v \<Rightarrow> mergeMap (Metadata dst) v)"
  "Database (assign_if_set p14 (\<lambda>v c. c\<lparr>Database := mergeInputDatabaseToDatabase (Database c) v\<rparr>) dst) = (case p14 of None \<Rightarrow> Database dst | Some v \<Rightarrow> mergeInputDatabaseToDatabase (Database dst) v)"
  "DatabasePtr (assign_if_set p15 (\<lambda>v c. c\<lparr>DatabasePtr := Some (mergeInputDatabaseToDatabase (case DatabasePtr c of None \<Rightarrow> DatabaseConfig0 | Some d \<Rightarrow> d) v)\<rparr>) dst) = (case p15 of None \<Rightarrow> DatabasePtr dst | Some v \<Rightarrow> Some (mergeInputDatabaseToDatabase (case DatabasePtr dst of None \<Rightarrow> DatabaseConfig0 | Some d \<Rightarrow> d) v))"
  "CreatedAt (assign_if_set p16 (\<lambda>v c. c\<lparr>CreatedAt := v\<rparr>) dst) = (case p16 of None \<Rightarrow> CreatedAt dst | Some v \<Rightarrow> v)"
  "UpdatedAt (assign_if_set p17 (\<lambda>v c. c\<lparr>UpdatedAt := Some v\<rparr>) dst) = (case p17 of None \<Rightarrow> UpdatedAt dst | Some v \<Rightarrow> Some v)"
  by (simp_all add: assign_if_set_def split: option.split)

lemma merge_fields:
  "Name (mergeInputToConfig dst (Some src)) = (case i_Name src of None \<Rightarrow> Name dst | Some v \<Rightarrow> v)"
  "Port (mergeInputToConfig dst (Some src)) = (case i_Port src of None \<Rightarrow> Port dst | Some v \<Rightarrow> v)"
  "MaxRetries (mergeInputToConfig dst (Some src)) = (case i_MaxRetries src of None \<Rightarrow> MaxRetries dst | Some v \<Rightarrow> v)"
  "Timeout (mergeInputToConfig dst (Some src)) = (case i_Timeout src of None \<Rightarrow> Timeout dst | Some v \<Rightarrow> v)"
  "Rate (mergeInputToConfig dst (Some src)) = (case i_Rate src of None \<Rightarrow> Rate dst | Some v \<Rightarrow> v)"
  "Enabled (mergeInputToConfig dst (Some src)) = (case i_Enabled src of None \<Rightarrow> Enabled dst | Some v \<Rightarrow> v)"
  "EnabledPtr (mergeInputToConfig dst (Some src)) = (case i_EnabledPtr src of None \<Rightarrow> EnabledPtr dst | Some v \<Rightarrow> Some v)"
  "Description (mergeInputToConfig dst (Some src)) = (case i_Description src of None \<Rightarrow> Description dst | Some v \<Rightarrow> Some v)"
  "Hosts (mergeInputToConfig dst (Some src)) = (case i_Hosts src of None \<Rightarrow> Hosts dst | Some v \<Rightarrow> Some v)"
  "Ports (mergeInputToConfig dst (Some src)) = (case i_Ports src of None \<Rightarrow> Ports dst | Some v \<Rightarrow> Some v)"
  "Tags (mergeInputToConfig dst (Some src)) = (case i_Tags src of None \<Rightarrow> Tags dst | Some v \<Rightarrow> Some (map convertTag v))"
  "Labels (mergeInputToConfig dst (Some src)) = (case i_Labels src of None \<Rightarrow> Labels dst | Some v \<Rightarrow> mergeMap (Labels dst) v)"
  "Metadata (mergeInputToConfig dst (Some src)) = (case i_Metadata src of None \<Rightarrow> Metadata dst | Some v \<Rightarrow> mergeMap (Metadata dst) v)"
  "Database (mergeInputToConfig dst (Some src)) = (case i_Database src of None \<Rightarrow> Database dst | Some v \<Rightarrow> mergeInputDatabaseToDatabase (Database dst) v)"
  "DatabasePtr (mergeInputToConfig dst (Some src)) = (case i_DatabasePtr src of None \<Rightarrow> DatabasePtr dst
      | Some v \<Rightarrow> Some (mergeInputDatabaseToDatabase (case DatabasePtr dst of None \<Rightarrow> DatabaseConfig0 | Some d \<Rightarrow> d) v))"
  "CreatedAt (mergeInputToConfig dst (Some src)) = (case i_CreatedAt src of None \<Rightarrow> CreatedAt dst | Some v \<Rightarrow> v)"
  "UpdatedAt (mergeInputToConfig dst (Some src)) = (case i_UpdatedAt src of None \<Rightarrow> UpdatedAt dst | Some v \<Rightarrow> Some v)"
  unfolding mergeInputToConfig_def Let_def option.case
  by (simp_all add: assign_hits
      sel_assign_frame[where sel=Name] sel_assign_frame[where sel=Port]
      sel_assign_frame[where sel=MaxRetries] sel_assign_frame[where sel=Timeout]
      sel_assign_frame[where sel=Rate] sel_assign_frame[where sel=Enabled]
      sel_assign_frame[where sel=EnabledPtr] sel_assign_frame[where sel=Description]
      sel_assign_frame[where sel=Hosts] sel_assign_frame[where sel=Ports]
      sel_assign_frame[where sel=Tags] sel_assign_frame[where sel=Labels]
      sel_assign_frame[where sel=Metadata] sel_assign_frame[where sel=Database]
      sel_assign_frame[where sel=DatabasePtr] sel_assign_frame[where sel=CreatedAt]
      sel_assign_frame[where sel=UpdatedAt] cong: option.case_cong)



lemmas example_defs = witness_acc_def witness_overlay_def test_input1_def test_input2_def
  Config0_def InputConfig0_def DatabaseConfig0_def InputDatabaseConfig0_def Tag0_def

section \<open>Claims about the merge\<close>

text \<open>
  C1. Merging an overlay onto a base leaves every base field unchanged whose overlay
  counterpart is unset: a nil overlay changes nothing, an unset field of the overlay
  keeps the destination's value, and inside a set nested overlay (\<open>Database\<close>, or
  \<open>DatabasePtr\<close> over an existing target) every unset sub-field keeps the
  destination's sub-field.
\<close>

theorem merge_unset_fields_unchanged:
  "mergeInputToConfig dst None = dst \<and>
   (let r = mergeInputToConfig dst (Some src) in
    (i_Name src = None \<longrightarrow> Name r = Name dst) \<and>
    (i_Port src = None \<longrightarrow> Port r = Port dst) \<and>
    (i_MaxRetries src = None \<longrightarrow> MaxRetries r = MaxRetries dst) \<and>
    (i_Timeout src = None \<longrightarrow> Timeout r = Timeout dst) \<and>
    (i_Rate src = None \<longrightarrow> Rate r = Rate dst) \<and>
    (i_Enabled src = None \<longrightarrow> Enabled r = Enabled dst) \<and>
    (i_EnabledPtr src = None \<longrightarrow> EnabledPtr r = EnabledPtr dst) \<and>
    (i_Description src = None \<longrightarrow> Description r = Description dst) \<and>
    (i_Hosts src = None \<longrightarrow> Hosts r = Hosts dst) \<and>
    (i_Ports src = None \<longrightarrow> Ports r = Ports dst) \<and>
    (i_Tags src = None \<longrightarrow> Tags r = Tags dst) \<and>
    (i_Labels src = None \<longrightarrow> Labels r = Labels dst) \<and>
    (i_Metadata src = None \<longrightarrow> Metadata r = Metadata dst) \<and>
    (i_Database src = None \<longrightarrow> Database r = Database dst) \<and>
    (i_DatabasePtr src = None \<longrightarrow> DatabasePtr r = DatabasePtr dst) \<and>
    (i_CreatedAt src = None \<longrightarrow> CreatedAt r = CreatedAt dst) \<and>
    (i_UpdatedAt src = None \<longrightarrow> UpdatedAt r = UpdatedAt dst) \<and>
    (\<forall>d. i_Database src = Some d \<longrightarrow>
       (id_Host d = None \<longrightarrow> d_Host (Database r) = d_Host (Database dst)) \<and>
       (id_Port d = None \<longrightarrow> d_Port (Database r) = d_Port (Database dst)) \<and>
       (id_Username d = None \<longrightarrow> d_Username (Database r) = d_Username (Database dst)) \<and>
       (id_Password d = None \<longrightarrow> d_Password (Database r) = d_Password (Database dst)) \<and>
       (id_SSLMode d = None \<longrightarrow> d_SSLMode (Database r) = d_SSLMode (Database dst))) \<and>
    (\<forall>d b. i_DatabasePtr src = Some d \<and> DatabasePtr dst = Some b \<longrightarrow>
       (\<exists>rb. DatabasePtr r = Some rb \<and>
         (id_Host d = None \<longrightarrow> d_Host rb = d_Host b) \<and>
         (id_Port d = None \<longrightarrow> d_Port rb = d_Port b) \<and>
         (id_Username d = None \<longrightarrow> d_Username rb = d_Username b) \<and>
         (id_Password d = None \<longrightarrow> d_Password rb = d_Password b) \<and>
         (id_SSLMode d = None \<longrightarrow> d_SSLMode rb = d_SSLMode b))))"
  by (simp add: Let_def merge_fields merge_db_fields) (simp add: mergeInputToConfig_def)

theorem merge_unset_fields_unchanged_witness:
  "i_Name witness_overlay = None \<and>
   Name (mergeInputToConfig witness_acc (Some witness_overlay)) = ''service-a'' \<and>
   i_Hosts witness_overlay = None \<and>
   Hosts (mergeInputToConfig witness_acc (Some witness_overlay)) = None \<and>
   id_Host (the (i_Database witness_overlay)) = None \<and>
   d_Host (Database (mergeInputToConfig witness_acc (Some witness_overlay))) = ''db1.example.com'' \<and>
   id_Host (the (i_DatabasePtr witness_overlay)) = None \<and>
   d_Host (the (DatabasePtr (mergeInputToConfig witness_acc (Some witness_overlay))))
     = ''replica.example.com''"
proof -
  let ?r = "mergeInputToConfig witness_acc (Some witness_overlay)"
  have ov: "i_Name witness_overlay = None" "i_Hosts witness_overlay = None"
    "i_Database witness_overlay = Some (InputDatabaseConfig0
         \<lparr>id_Password := Some ''secret123'', id_SSLMode := Some ''require''\<rparr>)"
    "i_DatabasePtr witness_overlay = Some (InputDatabaseConfig0\<lparr>id_Port := Some 5433\<rparr>)"
    "DatabasePtr witness_acc = Some (DatabaseConfig0\<lparr>d_Host := ''replica.example.com''\<rparr>)"
    by (simp_all add: witness_overlay_def witness_acc_def test_input2_def InputConfig0_def
          Config0_def)
  have idb: "id_Host (InputDatabaseConfig0
         \<lparr>id_Password := Some ''secret123'', id_SSLMode := Some ''require''\<rparr>) = None"
    "id_Host (InputDatabaseConfig0\<lparr>id_Port := Some 5433\<rparr>) = None"
    by (simp_all add: InputDatabaseConfig0_def)
  have r: "Name ?r = Name witness_acc" "Hosts ?r = Hosts witness_acc"
    "d_Host (Database ?r) = d_Host (Database witness_acc)"
    using merge_unset_fields_unchanged[of witness_acc witness_overlay] ov idb by (simp_all add: Let_def)
  have r': "d_Host (the (DatabasePtr ?r)) = d_Host (DatabaseConfig0\<lparr>d_Host := ''replica.example.com''\<rparr>)"
    using merge_unset_fields_unchanged[of witness_acc witness_overlay] ov idb by (clarsimp simp: Let_def)
  show ?thesis
    using r r' ov idb by (simp add: witness_acc_def Config0_def DatabaseConfig0_def)
qed

text \<open>
  C2, as stated, says that every set overlay field equals the overlay's value after the
  merge, map fields included. The accumulator of the test (\<open>test_input1\<close> merged onto
  the zero value) has the label \<open>env\<close>; the overlay \<open>test_input2\<close> sets
  \<open>Labels\<close> without that key; the merged \<open>Labels\<close> still holds \<open>env\<close> and so
  differs from the overlay's map.
\<close>

theorem merge_map_field_not_replaced:
  "i_Labels test_input2 \<noteq> None \<and>
   Labels (mergeInputToConfig (mergeInputToConfig Config0 (Some test_input1)) (Some test_input2))
     \<noteq> i_Labels test_input2"
proof -
  let ?r = "mergeInputToConfig (mergeInputToConfig Config0 (Some test_input1)) (Some test_input2)"
  have a: "the (Labels ?r) ''env'' = Some ''production''"
    by (simp add: merge_fields mergeMap_def example_defs)
  have b: "the (i_Labels test_input2) ''env'' = None"
    by (simp add: example_defs)
  have "Labels ?r \<noteq> i_Labels test_input2"
    using a b by auto
  moreover have "i_Labels test_input2 \<noteq> None" by (simp add: example_defs)
  ultimately show ?thesis by blast
qed

text \<open>
  C2, amended. A scalar, pointer, time or slice field that is set in the overlay holds
  the overlay's value after the merge, whatever the accumulator held (for \<open>Tags\<close>
  the overlay's tags converted one by one). A set map field is merged key by key: the
  result holds the overlay's value at each key of the overlay and the accumulator's
  entry at every other key. A set nested overlay replaces sub-field by sub-field.
\<close>

theorem merge_set_fields_take_overlay:
  "(let r = mergeInputToConfig acc (Some ov) in
    (\<forall>v. i_Name ov = Some v \<longrightarrow> Name r = v) \<and>
    (\<forall>v. i_Port ov = Some v \<longrightarrow> Port r = v) \<and>
    (\<forall>v. i_MaxRetries ov = Some v \<longrightarrow> MaxRetries r = v) \<and>
    (\<forall>v. i_Timeout ov = Some v \<longrightarrow> Timeout r = v) \<and>
    (\<forall>v. i_Rate ov = Some v \<longrightarrow> Rate r = v) \<and>
    (\<forall>v. i_Enabled ov = Some v \<longrightarrow> Enabled r = v) \<and>
    (\<forall>v. i_EnabledPtr ov = Some v \<longrightarrow> EnabledPtr r = Some v) \<and>
    (\<forall>v. i_Description ov = Some v \<longrightarrow> Description r = Some v) \<and>
    (\<forall>v. i_Hosts ov = Some v \<longrightarrow> Hosts r = Some v) \<and>
    (\<forall>v. i_Ports ov = Some v \<longrightarrow> Ports r = Some v) \<and>
    (\<forall>v. i_Tags ov = Some v \<longrightarrow> Tags r = Some (map convertTag v)) \<and>
    (\<forall>v. i_CreatedAt ov = Some v \<longrightarrow> CreatedAt r = v) \<and>
    (\<forall>v. i_UpdatedAt ov = Some v \<longrightarrow> UpdatedAt r = Some v) \<and>
    (\<forall>m. i_Labels ov = Some m \<longrightarrow>
       (\<exists>rm. Labels r = Some rm \<and>
         (\<forall>k. rm k = (case m k of Some x \<Rightarrow> Some x
                        | None \<Rightarrow> (case Labels acc of None \<Rightarrow> None | Some am \<Rightarrow> am k))))) \<and>
    (\<forall>m. i_Metadata ov = Some m \<longrightarrow>
       (\<exists>rm. Metadata r = Some rm \<and>
         (\<forall>k. rm k = (case m k of Some x \<Rightarrow> Some x
                        | None \<Rightarrow> (case Metadata acc of None \<Rightarrow> None | Some am \<Rightarrow> am k))))) \<and>
    (\<forall>d. i_Database ov = Some d \<longrightarrow>
       (\<forall>v. id_Host d = Some v \<longrightarrow> d_Host (Database r) = v) \<and>
       (\<forall>v. id_Port d = Some v \<longrightarrow> d_Port (Database r) = v) \<and>
       (\<forall>v. id_Username d = Some v \<longrightarrow> d_Username (Database r) = v) \<and>
       (\<forall>v. id_Password d = Some v \<longrightarrow> d_Password (Database r) = v) \<and>
       (\<forall>v. id_SSLMode d = Some v \<longrightarrow> d_SSLMode (Database r) = v)) \<and>
    (\<forall>d. i_DatabasePtr ov = Some d \<longrightarrow>
       (\<exists>rb. DatabasePtr r = Some rb \<and>
         (\<forall>v. id_Host d = Some v \<longrightarrow> d_Host rb = v) \<and>
         (\<forall>v. id_Port d = Some v \<longrightarrow> d_Port rb = v) \<and>
         (\<forall>v. id_Username d = Some v \<longrightarrow> d_Username rb = v) \<and>
         (\<forall>v. id_Password d = Some v \<longrightarrow> d_Password rb = v) \<and>
         (\<forall>v. id_SSLMode d = Some v \<longrightarrow> d_SSLMode rb = v))))"
  by (simp add: Let_def merge_fields merge_db_fields mergeMap_def map_add_def
        split: option.split)

theorem merge_set_fields_take_overlay_witness:
  "i_Port witness_overlay = Some 9090 \<and>
   Port (mergeInputToConfig witness_acc (Some witness_overlay)) = 9090 \<and>
   the (i_Labels witness_overlay) ''version'' = Some ''2.0'' \<and>
   the (Labels (mergeInputToConfig witness_acc (Some witness_overlay))) ''version'' = Some ''2.0'' \<and>
   the (Labels (mergeInputToConfig witness_acc (Some witness_overlay))) ''env'' = Some ''production'' \<and>
   id_Password (the (i_Database witness_overlay)) = Some ''secret123'' \<and>
   d_Password (Database (mergeInputToConfig witness_acc (Some witness_overlay))) = ''secret123'' \<and>
   id_Port (the (i_DatabasePtr witness_overlay)) = Some 5433 \<and>
   d_Port (the (DatabasePtr (mergeInputToConfig witness_acc (Some witness_overlay)))) = 5433 \<and>
   Tags (mergeInputToConfig witness_acc (Some witness_overlay))
     = Some [\<lparr>t_Key = ''priority'', t_Value = ''high''\<rparr>]"
proof -
  let ?r = "mergeInputToConfig witness_acc (Some witness_overlay)"
  have ov: "i_Port witness_overlay = Some 9090"
    "i_Labels witness_overlay = Some [''version'' \<mapsto> ''2.0'', ''team'' \<mapsto> ''platform'']"
    "i_Tags witness_overlay = Some [\<lparr>it_Key = Some ''priority'', it_Value = Some ''high''\<rparr>]"
    "i_Database witness_overlay = Some (InputDatabaseConfig0
         \<lparr>id_Password := Some ''secret123'', id_SSLMode := Some ''require''\<rparr>)"
    "i_DatabasePtr witness_overlay = Some (InputDatabaseConfig0\<lparr>id_Port := Some 5433\<rparr>)"
    "Labels witness_acc = Some [''env'' \<mapsto> ''production'', ''version'' \<mapsto> ''1.0'']"
    by (simp_all add: witness_overlay_def witness_acc_def test_input2_def InputConfig0_def
          Config0_def)
  have idb: "id_Password (InputDatabaseConfig0
         \<lparr>id_Password := Some ''secret123'', id_SSLMode := Some ''require''\<rparr>) = Some ''secret123''"
    "id_Port (InputDatabaseConfig0\<lparr>id_Port := Some 5433\<rparr>) = Some 5433"
    by (simp_all add: InputDatabaseConfig0_def)
  note t = merge_set_fields_take_overlay[of witness_acc witness_overlay, unfolded Let_def]
  have r1: "Port ?r = 9090" using t ov by simp
  have r2: "Tags ?r = Some (map convertTag [\<lparr>it_Key = Some ''priority'', it_Value = Some ''high''\<rparr>])"
    using t ov by simp
  have r3: "d_Password (Database ?r) = ''secret123''" using t ov idb by simp
  obtain rb where rb: "DatabasePtr ?r = Some rb" "d_Port rb = 5433" using t ov idb by auto
  obtain rm where rm: "Labels ?r = Some rm"
    "\<And>k. rm k = (case [''version'' \<mapsto> ''2.0'', ''team'' \<mapsto> ''platform''] k of Some x \<Rightarrow> Some x
                  | None \<Rightarrow> (case Labels witness_acc of None \<Rightarrow> None | Some am \<Rightarrow> am k))"
    using t ov by auto
  have r4: "the (Labels ?r) ''version'' = Some ''2.0''" "the (Labels ?r) ''env'' = Some ''production''"
    using rm ov by simp_all
  show ?thesis
    using r1 r2 r3 r4 rb ov idb by (simp add: convertTag_def assign_if_set_def Tag0_def)
qed


text \<open>
  C4. The scenario: base \<open>{Name: default, Port: 8080}\<close>, the file layer sets only
  \<open>Port = 9090\<close>, the env layer sets only \<open>Name = from-env\<close>; the effective value
  is \<open>{Name: from-env, Port: 9090}\<close>, and with the env layer cleared (its slot
  holding no overlay, or its overlay taken out of the fold) it is
  \<open>{Name: default, Port: 9090}\<close>.
\<close>

theorem scenario_file_env_layers:
  "spec_effective scenario_base [Some scenario_file, Some scenario_env]
     = Config0\<lparr>Name := ''from-env'', Port := 9090\<rparr> \<and>
   spec_effective scenario_base [Some scenario_file, None]
     = Config0\<lparr>Name := ''default'', Port := 9090\<rparr> \<and>
   spec_effective scenario_base [Some scenario_file]
     = Config0\<lparr>Name := ''default'', Port := 9090\<rparr>"
  by (simp add: spec_effective_def mergeInputToConfig_def assign_if_set_def Let_def
        scenario_base_def scenario_file_def scenario_env_def InputConfig0_def Config0_def)


section \<open>Claims about the broker\<close>

text \<open>
  C7. A transaction whose \<open>edit\<close> reports an error aborts atomically: the call
  returns the error and the broker is exactly what it was before, so the layer's
  overlay, the published effective value and every subscription's queue are unchanged
  and nothing was delivered.
\<close>

theorem Transaction_abort_leaves_broker:
  assumes "edit (slots b name) = Inl msg"
  shows "fst (Transaction ops name edit b) = b \<and>
         snd (Transaction ops name edit b) \<noteq> None \<and>
         slots (fst (Transaction ops name edit b)) = slots b \<and>
         published (fst (Transaction ops name edit b)) = published b \<and>
         subscriptions (fst (Transaction ops name edit b)) = subscriptions b"
  using assms by (simp add: Transaction_def)

theorem Transaction_abort_leaves_broker_witness:
  "failing_edit (slots scenario_broker ''file'') = Inl ''rejected'' \<and>
   fst (Transaction config_ops ''file'' failing_edit scenario_broker) = scenario_broker \<and>
   snd (Transaction config_ops ''file'' failing_edit scenario_broker) \<noteq> None"
proof -
  have h: "failing_edit (slots scenario_broker ''file'') = Inl ''rejected''"
    by (simp add: failing_edit_def)
  show ?thesis
    using h Transaction_abort_leaves_broker
            [of failing_edit scenario_broker "''file''" "''rejected''" config_ops]
    by simp
qed

text \<open>
  The broker over the merge of the playground. A layer that is set again to the same
  overlay leaves every subscription as it was, given that the published value is the
  recomputed one and the injected equality is reflexive; two layers set in either
  order publish the same value; and the scenario of C4 replayed through
  \<open>SetLayer\<close> and \<open>ClearLayer\<close>.
\<close>

lemma Notify_same: "(\<And>s. op_equal ops s s) \<Longrightarrow> Notify ops v v subs = subs"
  by (induction subs) (simp_all add: Notify_def split: option.split)

lemma SetLayer_again_no_notification:
  assumes refl: "\<And>s. op_equal ops s s"
    and known: "name \<in> set (layer_names b)"
  shows "fst (SetLayer ops name x (fst (SetLayer ops name x b))) = fst (SetLayer ops name x b)"
proof -
  let ?b1 = "commit ops name (Some x) b"
  have p: "published ?b1 = recompute ops (b\<lparr>slots := (slots b)(name \<mapsto> x)\<rparr>)"
    by (simp add: commit_def Let_def)
  have r: "recompute ops (?b1\<lparr>slots := (slots ?b1)(name \<mapsto> x)\<rparr>) = published ?b1"
    by (simp add: commit_def Let_def recompute_def Snapshot_def)
  have "commit ops name (Some x) ?b1 = ?b1"
    unfolding commit_def [of ops name "Some x" ?b1] Let_def r
    by (simp add: Notify_same [OF refl]) (simp add: commit_def Let_def)
  then show ?thesis
    using known by (simp add: SetLayer_def commit_def Let_def)
qed

lemma SetLayer_order_irrelevant:
  assumes "n1 \<noteq> n2" "n1 \<in> set (layer_names b)" "n2 \<in> set (layer_names b)"
  shows "published (fst (SetLayer ops n2 y (fst (SetLayer ops n1 x b))))
           = published (fst (SetLayer ops n1 x (fst (SetLayer ops n2 y b))))"
  using assms
  by (simp add: SetLayer_def commit_def Let_def recompute_def Snapshot_def fun_upd_twist)

lemma SetLayer_fields:
  assumes "name \<in> set (layer_names b)"
  shows "layer_names (fst (SetLayer ops name x b)) = layer_names b"
    and "base_value (fst (SetLayer ops name x b)) = base_value b"
    and "slots (fst (SetLayer ops name x b)) = (slots b)(name \<mapsto> x)"
    and "published (fst (SetLayer ops name x b))
           = foldl (op_merge ops) (base_value b)
               (List.map_filter ((slots b)(name \<mapsto> x)) (layer_names b))"
  using assms by (simp_all add: SetLayer_def commit_def Let_def recompute_def Snapshot_def)

lemma ClearLayer_fields:
  assumes "name \<in> set (layer_names b)"
  shows "published (fst (ClearLayer ops name b))
           = foldl (op_merge ops) (base_value b)
               (List.map_filter ((slots b)(name := None)) (layer_names b))"
  using assms by (simp add: ClearLayer_def commit_def Let_def recompute_def Snapshot_def)

lemma scenario_through_broker:
  "published (fst (SetLayer config_ops ''env'' scenario_env
                     (fst (SetLayer config_ops ''file'' scenario_file fresh_broker))))
     = Config0\<lparr>Name := ''from-env'', Port := 9090\<rparr> \<and>
   published (fst (ClearLayer config_ops ''env''
                     (fst (SetLayer config_ops ''env'' scenario_env
                             (fst (SetLayer config_ops ''file'' scenario_file fresh_broker))))))
     = Config0\<lparr>Name := ''default'', Port := 9090\<rparr>"
proof -
  let ?b1 = "fst (SetLayer config_ops ''file'' scenario_file fresh_broker)"
  let ?b2 = "fst (SetLayer config_ops ''env'' scenario_env ?b1)"
  have f0: "layer_names fresh_broker = [''file'', ''env'']"
    "base_value fresh_broker = scenario_base" "slots fresh_broker = Map.empty"
    by (simp_all add: fresh_broker_def)
  have k0: "''file'' \<in> set (layer_names fresh_broker)"
    by (simp add: f0)
  have n1: "layer_names ?b1 = [''file'', ''env'']"
    by (simp add: SetLayer_fields [OF k0] f0)
  have k1: "''env'' \<in> set (layer_names ?b1)"
    by (simp add: n1)
  have n2: "layer_names ?b2 = [''file'', ''env'']"
    by (simp add: SetLayer_fields [OF k1] n1)
  have k2: "''env'' \<in> set (layer_names ?b2)"
    by (simp add: n2)
  have base: "base_value ?b2 = scenario_base" "base_value ?b1 = scenario_base"
    by (simp_all add: SetLayer_fields [OF k1] SetLayer_fields [OF k0] f0)
  have sl: "slots ?b1 = [''file'' \<mapsto> scenario_file]"
    "slots ?b2 = [''file'' \<mapsto> scenario_file, ''env'' \<mapsto> scenario_env]"
    by (simp_all add: SetLayer_fields [OF k1] SetLayer_fields [OF k0] f0)
  have m: "op_merge config_ops = (\<lambda>c ov. mergeInputToConfig c (Some ov))"
    by (simp add: config_ops_def)
  have p2: "published ?b2
              = mergeInputToConfig (mergeInputToConfig scenario_base (Some scenario_file))
                  (Some scenario_env)"
    by (simp add: SetLayer_fields(4) [OF k1] n1 base sl m List.map_filter_def)
  have p3: "published (fst (ClearLayer config_ops ''env'' ?b2))
              = mergeInputToConfig scenario_base (Some scenario_file)"
    by (simp add: ClearLayer_fields [OF k2] n2 base sl m List.map_filter_def)
  show ?thesis
    unfolding p2 p3
    by (simp add: mergeInputToConfig_def assign_if_set_def Let_def scenario_base_def
          scenario_file_def scenario_env_def InputConfig0_def Config0_def)
qed

section \<open>Claims about BuildPaths\<close>

lemma buildPathsRecursive_Node_never_returns:
  assumes nm: "nestedMap ''Node'' = Some Node_info"
  shows "buildPathsRecursive depth Node_info nestedMap prefix accessorPrefix
     parentTypeName parentIsPtr paths = None"
proof (induction depth arbitrary: prefix accessorPrefix parentTypeName parentIsPtr paths)
  case 0
  show ?case by simp
next
  case (Suc depth)
  have flds: "s_Fields Node_info =
      [basic_field ''Value'' ''string'',
       (basic_field ''Next'' ''Node'')\<lparr>f_IsPointer := True, f_IsStruct := True\<rparr>]"
    by (simp add: Node_info_def)
  show ?case
    by (simp add: flds basic_field_def Let_def Suc nm)
qed

lemma BuildPaths_flat_returns:
  "BuildPaths (Suc depth) info []
     = Some (map (\<lambda>f. pathInfoOf f [] ''m.config'' [] False) (s_Fields info))"
proof -
  have "foldl
       (\<lambda>acc field.
          case acc of
            None \<Rightarrow> None
          | Some paths \<Rightarrow>
             (let pi = pathInfoOf field [] ''m.config'' [] False;
                  paths = paths @ [pi]
              in if f_IsStruct field \<and> f_TypePkg field = [] \<and> \<not> f_IsSlice field
                     \<and> \<not> f_IsMap field
                 then (case Map.empty (f_TypeName field) of
                         Some nestedInfo \<Rightarrow>
                           buildPathsRecursive depth nestedInfo Map.empty (p_Path pi)
                             (p_AccessorExpr pi) (f_TypeName field)
                             (f_IsPointer field \<or> False) paths
                       | None \<Rightarrow> Some paths)
                 else Some paths))
       (Some ps) fs = Some (ps @ map (\<lambda>f. pathInfoOf f [] ''m.config'' [] False) fs)"
    for ps fs
    by (induction fs arbitrary: ps) (simp_all add: Let_def)
  from this [of "[]" "s_Fields info"] show ?thesis
    by (simp add: BuildPaths_def)
qed

lemma BuildPaths_acyclic_example:
  "map_option (map p_Path) (BuildPaths 2 NestedConfig_info [Home_info])
     = Some [''Name'', ''Home'', ''Home.Address'', ''Home.City'', ''Home.ZipCode'']"
  by (simp add: BuildPaths_def NestedConfig_info_def Home_info_def basic_field_def
        pathInfoOf_def Let_def numeral_2_eq_2)

text \<open>
  C10. On the linked-list input the call chain of \<open>buildPathsRecursive\<close> never comes
  back: whatever call depth is allowed, \<open>BuildPaths\<close> has not returned within it.
\<close>

theorem BuildPaths_cyclic_never_returns:
  "BuildPaths depth Queue_info [Node_info] = None"
proof (cases depth)
  case 0
  then show ?thesis by (simp add: BuildPaths_def)
next
  case (Suc d)
  have m: "foldl (\<lambda>m n. m(s_Name n \<mapsto> n)) Map.empty [Node_info] = [''Node'' \<mapsto> Node_info]"
    by (simp add: Node_info_def)
  have flds: "s_Fields Queue_info =
      [(basic_field ''Head'' ''Node'')\<lparr>f_IsPointer := True, f_IsStruct := True\<rparr>]"
    by (simp add: Queue_info_def)
  have nm: "[''Node'' \<mapsto> Node_info] ''Node'' = Some Node_info"
    by simp
  show ?thesis
    unfolding BuildPaths_def Let_def m Suc
    by (simp add: flds basic_field_def Let_def nm
          buildPathsRecursive_Node_never_returns
            [where nestedMap = "[''Node'' \<mapsto> Node_info]", OF nm] del: fun_upd_apply)
qed

section \<open>Claims about the copy\<close>

lemma CopyManual_limits:
  "CopyManual 1 (Some limits_config) limits_heap
     = Some (Some (limits_config\<lparr>h_Metadata := Some 2\<rparr>),
             limits_heap @ [OMapAny [(''limits'', HMapString (Some 0))]])"
  by (simp add: CopyManual_def copy_metadata_def copy_cell_def limits_config_def
        limits_heap_def HConfig0_def alloc_def load_def store_def Let_def)

lemma CopyManual_hosts:
  "CopyManual 1 (Some limits_config) hosts_heap
     = Some (Some (limits_config\<lparr>h_Metadata := Some 2\<rparr>),
             hosts_heap @ [OMapAny [(''hosts'', HSliceString (Some 3))], OStrings [''a'', ''b'']])"
  by (simp add: CopyManual_def copy_metadata_def copy_cell_def limits_config_def
        hosts_heap_def HConfig0_def alloc_def load_def store_def Let_def)

lemma CopyManual_copies_string_slices:
  "(case CopyManual 1 (Some limits_config) hosts_heap of
      Some (Some copy, h1) \<Rightarrow>
        (case set_metadata_elem copy ''hosts'' 0 ''z'' h1 of
           Some h2 \<Rightarrow>
             read_metadata 2 h2 copy
               = Some (AMapAny [(''hosts'', ASliceString [''z'', ''b''])]) \<and>
             read_metadata 2 h2 limits_config
               = Some (AMapAny [(''hosts'', ASliceString [''a'', ''b''])])
         | None \<Rightarrow> False)
    | _ \<Rightarrow> False)"
  unfolding CopyManual_hosts
  by (simp add: read_metadata_def set_metadata_elem_def limits_config_def hosts_heap_def
        HConfig0_def load_def store_def numeral_2_eq_2)

text \<open>
  C5. The copy of a configuration whose \<open>Metadata\<close> holds a \<open>map[string]string\<close>
  is structurally equal to the original and shares that inner map with it: after the
  holder of the copy stores \<open>tier = free\<close> through the copy, the original reads
  \<open>free\<close> where it read \<open>gold\<close>.
\<close>

theorem CopyManual_shares_metadata_values:
  "(case CopyManual 1 (Some limits_config) limits_heap of
      Some (Some copy, h1) \<Rightarrow>
        read_metadata 2 h1 copy = read_metadata 2 limits_heap limits_config \<and>
        read_metadata 2 h1 limits_config
          = Some (AMapAny [(''limits'', AMapString [(''tier'', ''gold'')])]) \<and>
        (case set_metadata_label copy ''limits'' ''tier'' ''free'' h1 of
           Some h2 \<Rightarrow>
             read_metadata 2 h2 limits_config
               = Some (AMapAny [(''limits'', AMapString [(''tier'', ''free'')])])
         | None \<Rightarrow> False)
    | _ \<Rightarrow> False)"
  unfolding CopyManual_limits
  by (simp add: read_metadata_def set_metadata_label_def limits_config_def limits_heap_def
        HConfig0_def load_def store_def numeral_2_eq_2)

section \<open>Claims about the two merge strategies\<close>

lemma decode_sint:
  "decodeGoInt (JInt (sint n)) old = n"
  "decodeGoInt32 (JInt (sint m)) old32 = m"
proof -
  have "- (2 ^ 63) \<le> sint n" "sint n \<le> 2 ^ 63 - 1"
    using sint_ge [of n] sint_lt [of n] by simp_all
  then show "decodeGoInt (JInt (sint n)) old = n"
    by (simp add: decodeGoInt_def decodeInt_def)
  have "- (2 ^ 31) \<le> sint m" "sint m \<le> 2 ^ 31 - 1"
    using sint_ge [of m] sint_lt [of m] by simp_all
  then show "decodeGoInt32 (JInt (sint m)) old32 = m"
    by (simp add: decodeGoInt32_def decodeInt_def)
qed

lemma decodeArray_strings:
  "list_all (\<lambda>s. f s = s) xs \<Longrightarrow>
   decodeArray decodeString [] (map (\<lambda>s. JString (f s)) xs) old = xs"
  by (induction xs arbitrary: old) (simp_all add: decodeString_def)

lemma decodeArray_ints:
  "decodeArray decodeGoInt 0 (map (\<lambda>n. JInt (sint n)) xs) old = xs"
  by (induction xs arbitrary: old) (simp_all add: decode_sint)

lemma decodeTag_fresh:
  "tag_roundtrips lib t \<Longrightarrow> decodeTag (marshalInputTag lib t) Tag0 = convertTag t"
  by (cases "it_Key t"; cases "it_Value t")
     (simp_all add: tag_roundtrips_def decodeTag_def marshalInputTag_def member_def
        decodeTagField_def decodeString_def convertTag_def assign_if_set_def Tag0_def)

lemma decodeTag_complete:
  "tag_roundtrips lib t \<Longrightarrow> it_Key t \<noteq> None \<and> it_Value t \<noteq> None \<Longrightarrow>
   decodeTag (marshalInputTag lib t) old = convertTag t"
  by (cases "it_Key t"; cases "it_Value t")
     (simp_all add: tag_roundtrips_def decodeTag_def marshalInputTag_def member_def
        decodeTagField_def decodeString_def convertTag_def assign_if_set_def Tag0_def)

lemma decodeArray_tags_fresh:
  "list_all (tag_roundtrips lib) ts \<Longrightarrow>
   decodeArray decodeTag Tag0 (map (marshalInputTag lib) ts) [] = map convertTag ts"
  by (induction ts) (simp_all add: decodeTag_fresh)

lemma decodeArray_tags_complete:
  "list_all (tag_roundtrips lib) ts \<Longrightarrow>
   list_all (\<lambda>t. it_Key t \<noteq> None \<and> it_Value t \<noteq> None) ts \<Longrightarrow>
   decodeArray decodeTag Tag0 (map (marshalInputTag lib) ts) old = map convertTag ts"
  by (induction ts arbitrary: old) (simp_all add: decodeTag_complete)

lemma decodeDatabase_marshal:
  "db_roundtrips lib d \<Longrightarrow>
   decodeDatabase (marshalInputDatabaseConfig lib d) old = mergeInputDatabaseToDatabase old d"
  by (cases "id_Host d"; cases "id_Port d"; cases "id_Username d"; cases "id_Password d";
      cases "id_SSLMode d")
     (simp_all add: db_roundtrips_def decodeDatabase_def marshalInputDatabaseConfig_def
        member_def decodeDatabaseField_def decodeString_def decode_sint
        mergeInputDatabaseToDatabase_def assign_if_set_def Let_def)

lemma decode_members:
  "(case p1 of None \<Rightarrow> True | Some s \<Rightarrow> lib_string lib s = s) \<Longrightarrow>
   foldl decodeConfigField c (member ''name'' (map_option (\<lambda>s. JString (lib_string lib s)) p1))
     = assign_if_set p1 (\<lambda>v c. c\<lparr>Name := v\<rparr>) c"
  "foldl decodeConfigField c (member ''port'' (map_option (\<lambda>n. JInt (sint n)) p2))
     = assign_if_set p2 (\<lambda>v c. c\<lparr>Port := v\<rparr>) c"
  "foldl decodeConfigField c (member ''max_retries'' (map_option (\<lambda>n. JInt (sint n)) p3))
     = assign_if_set p3 (\<lambda>v c. c\<lparr>MaxRetries := v\<rparr>) c"
  "foldl decodeConfigField c (member ''timeout'' (map_option (\<lambda>n. JInt (sint n)) p4))
     = assign_if_set p4 (\<lambda>v c. c\<lparr>Timeout := v\<rparr>) c"
  "foldl decodeConfigField c (member ''rate'' (map_option JFloat p5))
     = assign_if_set p5 (\<lambda>v c. c\<lparr>Rate := v\<rparr>) c"
  "foldl decodeConfigField c (member ''enabled'' (map_option JBool p6))
     = assign_if_set p6 (\<lambda>v c. c\<lparr>Enabled := v\<rparr>) c"
  "foldl decodeConfigField c (member ''enabled_ptr'' (map_option JBool p7))
     = assign_if_set p7 (\<lambda>v c. c\<lparr>EnabledPtr := Some v\<rparr>) c"
  "(case p8 of None \<Rightarrow> True | Some s \<Rightarrow> lib_string lib s = s) \<Longrightarrow>
   foldl decodeConfigField c
       (member ''description'' (map_option (\<lambda>s. JString (lib_string lib s)) p8))
     = assign_if_set p8 (\<lambda>v c. c\<lparr>Description := Some v\<rparr>) c"
proof -
  note defs = member_def assign_if_set_def decodeConfigField_def decodeString_def
    decode_sint Let_def
  show "(case p1 of None \<Rightarrow> True | Some s \<Rightarrow> lib_string lib s = s) \<Longrightarrow>
   foldl decodeConfigField c (member ''name'' (map_option (\<lambda>s. JString (lib_string lib s)) p1))
     = assign_if_set p1 (\<lambda>v c. c\<lparr>Name := v\<rparr>) c"
    by (cases p1) (simp_all add: defs)
  show "foldl decodeConfigField c (member ''port'' (map_option (\<lambda>n. JInt (sint n)) p2))
     = assign_if_set p2 (\<lambda>v c. c\<lparr>Port := v\<rparr>) c"
    by (cases p2) (simp_all add: defs)
  show "foldl decodeConfigField c (member ''max_retries'' (map_option (\<lambda>n. JInt (sint n)) p3))
     = assign_if_set p3 (\<lambda>v c. c\<lparr>MaxRetries := v\<rparr>) c"
    by (cases p3) (simp_all add: defs)
  show "foldl decodeConfigField c (member ''timeout'' (map_option (\<lambda>n. JInt (sint n)) p4))
     = assign_if_set p4 (\<lambda>v c. c\<lparr>Timeout := v\<rparr>) c"
    by (cases p4) (simp_all add: defs)
  show "foldl decodeConfigField c (member ''rate'' (map_option JFloat p5))
     = assign_if_set p5 (\<lambda>v c. c\<lparr>Rate := v\<rparr>) c"
    by (cases p5) (simp_all add: defs)
  show "foldl decodeConfigField c (member ''enabled'' (map_option JBool p6))
     = assign_if_set p6 (\<lambda>v c. c\<lparr>Enabled := v\<rparr>) c"
    by (cases p6) (simp_all add: defs)
  show "foldl decodeConfigField c (member ''enabled_ptr'' (map_option JBool p7))
     = assign_if_set p7 (\<lambda>v c. c\<lparr>EnabledPtr := Some v\<rparr>) c"
    by (cases p7) (simp_all add: defs)
  show "(case p8 of None \<Rightarrow> True | Some s \<Rightarrow> lib_string lib s = s) \<Longrightarrow>
   foldl decodeConfigField c
       (member ''description'' (map_option (\<lambda>s. JString (lib_string lib s)) p8))
     = assign_if_set p8 (\<lambda>v c. c\<lparr>Description := Some v\<rparr>) c"
    by (cases p8) (simp_all add: defs)
qed

lemma decode_slice_members:
  "(case p9 of None \<Rightarrow> True | Some xs \<Rightarrow> list_all (\<lambda>s. lib_string lib s = s) xs) \<Longrightarrow>
   p9 \<noteq> Some [] \<Longrightarrow>
   foldl decodeConfigField c (slice_member ''hosts'' (\<lambda>s. JString (lib_string lib s)) p9)
     = assign_if_set p9 (\<lambda>v c. c\<lparr>Hosts := Some v\<rparr>) c"
  "p10 \<noteq> Some [] \<Longrightarrow>
   foldl decodeConfigField c (slice_member ''ports'' (\<lambda>n. JInt (sint n)) p10)
     = assign_if_set p10 (\<lambda>v c. c\<lparr>Ports := Some v\<rparr>) c"
proof -
  note defs = slice_member_def assign_if_set_def decodeConfigField_def decodeSlice_def Let_def
  show "(case p9 of None \<Rightarrow> True | Some xs \<Rightarrow> list_all (\<lambda>s. lib_string lib s = s) xs) \<Longrightarrow>
   p9 \<noteq> Some [] \<Longrightarrow>
   foldl decodeConfigField c (slice_member ''hosts'' (\<lambda>s. JString (lib_string lib s)) p9)
     = assign_if_set p9 (\<lambda>v c. c\<lparr>Hosts := Some v\<rparr>) c"
    by (cases p9) (simp_all add: defs decodeArray_strings)
  show "p10 \<noteq> Some [] \<Longrightarrow>
   foldl decodeConfigField c (slice_member ''ports'' (\<lambda>n. JInt (sint n)) p10)
     = assign_if_set p10 (\<lambda>v c. c\<lparr>Ports := Some v\<rparr>) c"
    by (cases p10) (simp_all add: defs decodeArray_ints)
qed

lemma decode_tags_member:
  assumes "case p11 of None \<Rightarrow> True | Some ts \<Rightarrow> list_all (tag_roundtrips lib) ts"
    and "p11 \<noteq> Some []"
    and "Tags c = None \<or>
         (case p11 of None \<Rightarrow> True
          | Some ts \<Rightarrow> list_all (\<lambda>t. it_Key t \<noteq> None \<and> it_Value t \<noteq> None) ts)"
  shows "foldl decodeConfigField c (slice_member ''tags'' (marshalInputTag lib) p11)
     = assign_if_set p11 (\<lambda>v c. c\<lparr>Tags := Some (map convertTag v)\<rparr>) c"
proof (cases p11)
  case None
  then show ?thesis by (simp add: slice_member_def assign_if_set_def)
next
  case (Some ts)
  have "decodeArray decodeTag Tag0 (map (marshalInputTag lib) ts)
          (case Tags c of None \<Rightarrow> [] | Some xs \<Rightarrow> xs) = map convertTag ts"
    using assms(1,3) Some
    by (auto simp: decodeArray_tags_fresh decodeArray_tags_complete)
  then show ?thesis
    using assms(2) Some
    by (simp add: slice_member_def assign_if_set_def decodeConfigField_def decodeSlice_def
          Let_def)
qed

lemma decode_map_members:
  "(case p12 of None \<Rightarrow> True | Some m \<Rightarrow> lib_strmap lib m = m) \<Longrightarrow>
   p12 \<noteq> Some Map.empty \<Longrightarrow>
   foldl decodeConfigField c (map_member ''labels'' (\<lambda>m. JStrMap (lib_strmap lib m)) p12)
     = assign_if_set p12 (\<lambda>v c. c\<lparr>Labels := mergeMap (Labels c) v\<rparr>) c"
  "(case p13 of None \<Rightarrow> True | Some m \<Rightarrow> lib_anymap lib m = Some m) \<Longrightarrow>
   p13 \<noteq> Some Map.empty \<Longrightarrow>
   foldl decodeConfigField c
       (map_member ''metadata''
          (\<lambda>m. JAnyMap (case lib_anymap lib m of None \<Rightarrow> Map.empty | Some m' \<Rightarrow> m')) p13)
     = assign_if_set p13 (\<lambda>v c. c\<lparr>Metadata := mergeMap (Metadata c) v\<rparr>) c"
proof -
  note defs = map_member_def assign_if_set_def decodeConfigField_def Let_def
  show "(case p12 of None \<Rightarrow> True | Some m \<Rightarrow> lib_strmap lib m = m) \<Longrightarrow>
   p12 \<noteq> Some Map.empty \<Longrightarrow>
   foldl decodeConfigField c (map_member ''labels'' (\<lambda>m. JStrMap (lib_strmap lib m)) p12)
     = assign_if_set p12 (\<lambda>v c. c\<lparr>Labels := mergeMap (Labels c) v\<rparr>) c"
    by (cases p12) (simp_all add: defs)
  show "(case p13 of None \<Rightarrow> True | Some m \<Rightarrow> lib_anymap lib m = Some m) \<Longrightarrow>
   p13 \<noteq> Some Map.empty \<Longrightarrow>
   foldl decodeConfigField c
       (map_member ''metadata''
          (\<lambda>m. JAnyMap (case lib_anymap lib m of None \<Rightarrow> Map.empty | Some m' \<Rightarrow> m')) p13)
     = assign_if_set p13 (\<lambda>v c. c\<lparr>Metadata := mergeMap (Metadata c) v\<rparr>) c"
    by (cases p13) (simp_all add: defs)
qed

lemma decode_struct_members:
  "(case p14 of None \<Rightarrow> True | Some d \<Rightarrow> db_roundtrips lib d) \<Longrightarrow>
   foldl decodeConfigField c
       (member ''database'' (map_option (marshalInputDatabaseConfig lib) p14))
     = assign_if_set p14
         (\<lambda>v c. c\<lparr>Database := mergeInputDatabaseToDatabase (Database c) v\<rparr>) c"
  "(case p15 of None \<Rightarrow> True | Some d \<Rightarrow> db_roundtrips lib d) \<Longrightarrow>
   foldl decodeConfigField c
       (member ''database_ptr'' (map_option (marshalInputDatabaseConfig lib) p15))
     = assign_if_set p15
         (\<lambda>v c. c\<lparr>DatabasePtr :=
                    Some (mergeInputDatabaseToDatabase
                            (case DatabasePtr c of None \<Rightarrow> DatabaseConfig0 | Some d \<Rightarrow> d) v)\<rparr>) c"
  "(case p16 of None \<Rightarrow> True | Some t \<Rightarrow> lib_time lib t = Some t) \<Longrightarrow>
   foldl decodeConfigField c
       (member ''created_at''
          (map_option (\<lambda>t. JTime (case lib_time lib t of None \<Rightarrow> t | Some t' \<Rightarrow> t')) p16))
     = assign_if_set p16 (\<lambda>v c. c\<lparr>CreatedAt := v\<rparr>) c"
  "(case p17 of None \<Rightarrow> True | Some t \<Rightarrow> lib_time lib t = Some t) \<Longrightarrow>
   foldl decodeConfigField c
       (member ''updated_at''
          (map_option (\<lambda>t. JTime (case lib_time lib t of None \<Rightarrow> t | Some t' \<Rightarrow> t')) p17))
     = assign_if_set p17 (\<lambda>v c. c\<lparr>UpdatedAt := Some v\<rparr>) c"
proof -
  note defs = member_def assign_if_set_def decodeConfigField_def Let_def
  show "(case p14 of None \<Rightarrow> True | Some d \<Rightarrow> db_roundtrips lib d) \<Longrightarrow>
   foldl decodeConfigField c
       (member ''database'' (map_option (marshalInputDatabaseConfig lib) p14))
     = assign_if_set p14
         (\<lambda>v c. c\<lparr>Database := mergeInputDatabaseToDatabase (Database c) v\<rparr>) c"
    by (cases p14) (simp_all add: defs decodeDatabase_marshal)
  show "(case p15 of None \<Rightarrow> True | Some d \<Rightarrow> db_roundtrips lib d) \<Longrightarrow>
   foldl decodeConfigField c
       (member ''database_ptr'' (map_option (marshalInputDatabaseConfig lib) p15))
     = assign_if_set p15
         (\<lambda>v c. c\<lparr>DatabasePtr :=
                    Some (mergeInputDatabaseToDatabase
                            (case DatabasePtr c of None \<Rightarrow> DatabaseConfig0 | Some d \<Rightarrow> d) v)\<rparr>) c"
  proof (cases p15)
    case None
    then show ?thesis by (simp add: defs)
  next
    case (Some d)
    assume "case p15 of None \<Rightarrow> True | Some d \<Rightarrow> db_roundtrips lib d"
    then have rt: "db_roundtrips lib d" using Some by simp
    obtain ms where ms: "marshalInputDatabaseConfig lib d = JObject ms"
      by (simp add: marshalInputDatabaseConfig_def)
    show ?thesis
      using decodeDatabase_marshal [OF rt] Some
      by (simp add: defs ms)
  qed
  show "(case p16 of None \<Rightarrow> True | Some t \<Rightarrow> lib_time lib t = Some t) \<Longrightarrow>
   foldl decodeConfigField c
       (member ''created_at''
          (map_option (\<lambda>t. JTime (case lib_time lib t of None \<Rightarrow> t | Some t' \<Rightarrow> t')) p16))
     = assign_if_set p16 (\<lambda>v c. c\<lparr>CreatedAt := v\<rparr>) c"
    by (cases p16) (simp_all add: defs)
  show "(case p17 of None \<Rightarrow> True | Some t \<Rightarrow> lib_time lib t = Some t) \<Longrightarrow>
   foldl decodeConfigField c
       (member ''updated_at''
          (map_option (\<lambda>t. JTime (case lib_time lib t of None \<Rightarrow> t | Some t' \<Rightarrow> t')) p17))
     = assign_if_set p17 (\<lambda>v c. c\<lparr>UpdatedAt := Some v\<rparr>) c"
    by (cases p17) (simp_all add: defs)
qed

lemma unmarshal_marshal:
  assumes rt: "roundtrips lib i" and ne: "no_empty i"
    and tg: "Tags c = None \<or> tags_complete i"
  shows "marshalInputConfig lib i \<noteq> None \<and>
         unmarshalConfig (the (marshalInputConfig lib i)) c = mergeInputToConfig c (Some i)"
proof -
  have err: "\<not> marshal_error lib i"
    using rt by (auto simp: roundtrips_def marshal_error_def split: option.splits)
  note r = rt [unfolded roundtrips_def]
  note n = ne [unfolded no_empty_def]
  have tg': "Tags c' = Tags c \<Longrightarrow> Tags c' = None \<or>
         (case i_Tags i of None \<Rightarrow> True
          | Some ts \<Rightarrow> list_all (\<lambda>t. it_Key t \<noteq> None \<and> it_Value t \<noteq> None) ts)"
    for c' :: Config
    using tg by (auto simp: tags_complete_def)
  show ?thesis
    using r n
    by (simp add: marshalInputConfig_def err unmarshalConfig_def mergeInputToConfig_def
          Let_def decode_members decode_slice_members decode_tags_member decode_map_members
          decode_struct_members tg' sel_assign_frame [where sel = Tags])
qed


text \<open>
  Two more inputs on which the strategies part. A second overlay whose tag sets only
  its key is decoded into the first overlay's tag and keeps that tag's value. An overlay
  whose \<open>Rate\<close> is NaN makes \<open>Marshal\<close> fail, and the whole overlay is skipped.
\<close>

lemma MergeJSON_keeps_stale_tag_value:
  "Tags (MergeReflection (Some test_input2)
           (Some (InputConfig0\<lparr>i_Tags := Some [\<lparr>it_Key = Some ''owner'', it_Value = None\<rparr>]\<rparr>)))
     = Some [\<lparr>t_Key = ''owner'', t_Value = []\<rparr>] \<and>
   Tags (MergeJSON exact_lib (Some test_input2)
           (Some (InputConfig0\<lparr>i_Tags := Some [\<lparr>it_Key = Some ''owner'', it_Value = None\<rparr>]\<rparr>)))
     = Some [\<lparr>t_Key = ''owner'', t_Value = ''high''\<rparr>]"
proof -
  have rt: "roundtrips exact_lib test_input2" and ne: "no_empty test_input2"
    by (auto simp: roundtrips_def no_empty_def exact_lib_def test_input2_def InputConfig0_def
          InputDatabaseConfig0_def db_roundtrips_def tag_roundtrips_def nan_or_inf_def
          dest: fun_cong [where x = "''team''"])
  have tg: "Tags Config0 = None \<or> tags_complete test_input2"
    by (simp add: Config0_def)
  note step = unmarshal_marshal [OF rt ne tg]
  have t1: "Tags (mergeInputToConfig Config0 (Some test_input2))
              = Some [\<lparr>t_Key = ''priority'', t_Value = ''high''\<rparr>]"
    by (simp add: merge_fields test_input2_def InputConfig0_def convertTag_def
          assign_if_set_def Tag0_def)
  let ?i = "InputConfig0\<lparr>i_Tags := Some [\<lparr>it_Key = Some ''owner'', it_Value = None\<rparr>]\<rparr>"
  have m2: "marshalInputConfig exact_lib ?i
              = Some (JObject [(''tags'', JArray [JObject [(''key'', JString ''owner'')]])])"
    by (simp add: marshalInputConfig_def marshal_error_def InputConfig0_def member_def
          slice_member_def map_member_def marshalInputTag_def exact_lib_def)
  have j: "Tags (MergeJSON exact_lib (Some test_input2) (Some ?i))
             = Some [\<lparr>t_Key = ''owner'', t_Value = ''high''\<rparr>]"
    using step t1
    by (auto simp: MergeJSON_def Let_def m2 unmarshalConfig_def decodeConfigField_def
          decodeSlice_def decodeTag_def decodeTagField_def decodeString_def)
  have r: "Tags (MergeReflection (Some test_input2) (Some ?i))
             = Some [\<lparr>t_Key = ''owner'', t_Value = []\<rparr>]"
    by (simp add: MergeReflection_def Let_def merge_fields InputConfig0_def convertTag_def
          assign_if_set_def Tag0_def)
  show ?thesis using r j by simp
qed

lemma MergeJSON_skips_input_with_NaN:
  "Port (MergeReflection None
           (Some (InputConfig0\<lparr>i_Port := Some 9090, i_Rate := Some 0x7FF8000000000000\<rparr>)))
     = 9090 \<and>
   Port (MergeJSON lib None
           (Some (InputConfig0\<lparr>i_Port := Some 9090, i_Rate := Some 0x7FF8000000000000\<rparr>)))
     = 0"
  by (simp add: MergeReflection_def MergeJSON_def Let_def merge_fields marshalInputConfig_def
        marshal_error_def nan_or_inf_def InputConfig0_def Config0_def)



end
